theory Spec2Isabelle
  imports Complex_Main "HOL-Library.Multiset"
begin

section \<open>Python values and the operations the servers apply to them\<close>

text \<open>
  The three servers (\<^verbatim>\<open>FunctionalMCP/mcpserver_drugdisease.py\<close>,
  \<^verbatim>\<open>.ipynb_checkpoints/mcp_diseaseEntity-checkpoint.py\<close> and
  \<^verbatim>\<open>.ipynb_checkpoints/mcp_generic-checkpoint.py\<close>) work on what
  \<^verbatim>\<open>response.json()\<close> decodes and on the dictionaries they build themselves.
  Both are values of the type \<open>json\<close>. A dictionary is an association list in
  insertion order, each key held once, as a decoded JSON object is. Numbers are Python's
  \<^verbatim>\<open>int\<close> and its finite \<^verbatim>\<open>float\<close> (a real number).
\<close>

datatype json =
    JNull
  | JBool bool
  | JInt int
  | JFloat real
  | JStr string
  | JList "json list"
  | JDict "(string \<times> json) list"

text \<open>
  An exception carries the text that \<^verbatim>\<open>str(e)\<close> gives. The texts of the
  exceptions that the interpreter raises are CPython's. \<open>HTTPStatusError\<close> also carries
  \<^verbatim>\<open>e.response.status_code\<close> and \<^verbatim>\<open>e.response.text\<close>, which one handler reads.
  All of them are subclasses of \<^verbatim>\<open>Exception\<close>, so \<^verbatim>\<open>except Exception\<close> catches each.
\<close>

datatype exn =
    TypeError string
  | AttributeError string
  | KeyError string
  | IndexError string
  | ValueError string
  | JSONDecodeError string
  | TransportError string
  | HTTPStatusError nat string string

fun str_e :: "exn \<Rightarrow> string" where
  "str_e (TypeError m) = m"
| "str_e (AttributeError m) = m"
| "str_e (KeyError m) = m"
| "str_e (IndexError m) = m"
| "str_e (ValueError m) = m"
| "str_e (JSONDecodeError m) = m"
| "str_e (TransportError m) = m"
| "str_e (HTTPStatusError code body m) = m"

text \<open>Sequencing of steps that may raise: the first exception ends the block.\<close>

definition ebind :: "exn + 'a \<Rightarrow> ('a \<Rightarrow> exn + 'b) \<Rightarrow> exn + 'b" where
  "ebind m f = (case m of Inl e \<Rightarrow> Inl e | Inr x \<Rightarrow> f x)"

fun type_name :: "json \<Rightarrow> string" where
  "type_name JNull = ''NoneType''"
| "type_name (JBool b) = ''bool''"
| "type_name (JInt i) = ''int''"
| "type_name (JFloat r) = ''float''"
| "type_name (JStr s) = ''str''"
| "type_name (JList xs) = ''list''"
| "type_name (JDict kvs) = ''dict''"

definition quoted :: "string \<Rightarrow> string" where
  "quoted s = [CHR 0x27] @ s @ [CHR 0x27]"

text \<open>Decimal digits of a natural number and of an integer, as \<^verbatim>\<open>str\<close> prints them.\<close>

function show_nat :: "nat \<Rightarrow> string" where
  "show_nat n =
     (if n < 10 then [char_of (48 + n)]
      else show_nat (n div 10) @ [char_of (48 + n mod 10)])"
  by pat_completeness auto
termination
  by (relation "measure (\<lambda>n. n)") auto

definition show_int :: "int \<Rightarrow> string" where
  "show_int i = (if i < 0 then CHR ''-'' # show_nat (nat (- i)) else show_nat (nat i))"

text \<open>
  \<^verbatim>\<open>repr\<close> of a value, for the text of a \<^verbatim>\<open>KeyError\<close>. A string is rendered
  between single quotes, which is \<^verbatim>\<open>repr\<close> for a string without quotes, backslashes
  or control characters. The digits of a float and the elements of a list or dictionary are
  not rendered: no path of the servers looks a float up in a dictionary, and a list or a
  dictionary is refused as a key before any text is made.
\<close>

definition float_repr :: "real \<Rightarrow> string" where
  "float_repr r = ''<float>''"

fun py_repr :: "json \<Rightarrow> string" where
  "py_repr JNull = ''None''"
| "py_repr (JBool b) = (if b then ''True'' else ''False'')"
| "py_repr (JInt i) = show_int i"
| "py_repr (JFloat r) = float_repr r"
| "py_repr (JStr s) = quoted s"
| "py_repr (JList xs) = ''[...]''"
| "py_repr (JDict kvs) = ''{...}''"

subsection \<open>Equality, truth value, hashing\<close>

text \<open>
  Python's \<^verbatim>\<open>==\<close> on decoded JSON: \<^verbatim>\<open>bool\<close> is a subclass of \<^verbatim>\<open>int\<close>, and
  numbers compare by value (\<^verbatim>\<open>True == 1 == 1.0\<close>); lists compare element by element;
  dictionaries compare as mappings, whatever their order.
\<close>

fun num_val :: "json \<Rightarrow> real option" where
  "num_val (JBool b) = Some (if b then 1 else 0)"
| "num_val (JInt i) = Some (real_of_int i)"
| "num_val (JFloat r) = Some r"
| "num_val _ = None"

fun py_eq :: "json \<Rightarrow> json \<Rightarrow> bool"
  and py_eq_list :: "json list \<Rightarrow> json list \<Rightarrow> bool"
  and py_eq_items :: "(string \<times> json) list \<Rightarrow> (string \<times> json) list \<Rightarrow> bool" where
  "py_eq JNull y = (y = JNull)"
| "py_eq (JBool b) y = (num_val y = Some (if b then 1 else 0))"
| "py_eq (JInt i) y = (num_val y = Some (real_of_int i))"
| "py_eq (JFloat r) y = (num_val y = Some r)"
| "py_eq (JStr s) y = (y = JStr s)"
| "py_eq (JList xs) y = (case y of JList ys \<Rightarrow> py_eq_list xs ys | _ \<Rightarrow> False)"
| "py_eq (JDict kvs) y =
     (case y of JDict kws \<Rightarrow> length kvs = length kws \<and> py_eq_items kvs kws | _ \<Rightarrow> False)"
| "py_eq_list [] ys = (ys = [])"
| "py_eq_list (x # xs) ys =
     (case ys of [] \<Rightarrow> False | y # ys' \<Rightarrow> py_eq x y \<and> py_eq_list xs ys')"
| "py_eq_items [] kws = True"
| "py_eq_items ((k, v) # kvs) kws =
     (case map_of kws k of None \<Rightarrow> False | Some w \<Rightarrow> py_eq v w \<and> py_eq_items kvs kws)"

fun truthy :: "json \<Rightarrow> bool" where
  "truthy JNull = False"
| "truthy (JBool b) = b"
| "truthy (JInt i) = (i \<noteq> 0)"
| "truthy (JFloat r) = (r \<noteq> 0)"
| "truthy (JStr s) = (s \<noteq> [])"
| "truthy (JList xs) = (xs \<noteq> [])"
| "truthy (JDict kvs) = (kvs \<noteq> [])"

fun hashable :: "json \<Rightarrow> bool" where
  "hashable (JList xs) = False"
| "hashable (JDict kvs) = False"
| "hashable _ = True"

definition unhashable :: "json \<Rightarrow> exn" where
  "unhashable x = TypeError (''unhashable type: '' @ quoted (type_name x))"

subsection \<open>Attribute access, membership, indexing, iteration, slicing\<close>

text \<open>\<^verbatim>\<open>x.get(key, default)\<close>: only a dictionary has the method.\<close>

fun py_get :: "json \<Rightarrow> string \<Rightarrow> json \<Rightarrow> exn + json" where
  "py_get (JDict kvs) key dflt = Inr (case map_of kvs key of None \<Rightarrow> dflt | Some v \<Rightarrow> v)"
| "py_get x key dflt =
     Inl (AttributeError (quoted (type_name x) @ '' object has no attribute '' @ quoted ''get''))"

text \<open>\<^verbatim>\<open>s.upper()\<close> on ASCII text; only a string has the method.\<close>

definition upper_char :: "char \<Rightarrow> char" where
  "upper_char c =
     (let n = (of_char c :: nat) in if 97 \<le> n \<and> n \<le> 122 then char_of (n - 32) else c)"

fun py_upper :: "json \<Rightarrow> exn + string" where
  "py_upper (JStr s) = Inr (map upper_char s)"
| "py_upper x =
     Inl (AttributeError (quoted (type_name x) @ '' object has no attribute '' @ quoted ''upper''))"

text \<open>\<^verbatim>\<open>t in s\<close> on strings: \<open>t\<close> occurs in \<open>s\<close> as a contiguous piece.\<close>

fun substring :: "string \<Rightarrow> string \<Rightarrow> bool" where
  "substring t [] = (t = [])"
| "substring t (c # s) = (take (length t) (c # s) = t \<or> substring t s)"

text \<open>
  \<^verbatim>\<open>x in c\<close>. A dictionary tests its keys (and hashes \<open>x\<close> first), a list compares
  \<open>x\<close> with each element, a string wants a string on the left; nothing else is a container.
\<close>

fun py_in :: "json \<Rightarrow> json \<Rightarrow> exn + bool" where
  "py_in x (JDict kvs) =
     (if hashable x then Inr (case x of JStr k \<Rightarrow> map_of kvs k \<noteq> None | _ \<Rightarrow> False)
      else Inl (unhashable x))"
| "py_in x (JList xs) = Inr (list_ex (\<lambda>y. py_eq x y) xs)"
| "py_in x (JStr s) =
     (case x of
        JStr t \<Rightarrow> Inr (substring t s)
      | _ \<Rightarrow> Inl (TypeError (quoted ''in <string>'' @ '' requires string as left operand, not ''
                              @ type_name x)))"
| "py_in x c = Inl (TypeError (''argument of type '' @ quoted (type_name c) @ '' is not iterable''))"

text \<open>An index into a sequence of length \<open>n\<close>: a negative index counts from the end.\<close>

definition seq_index :: "nat \<Rightarrow> int \<Rightarrow> nat option" where
  "seq_index n i =
     (let j = (if i < 0 then int n + i else i)
      in if 0 \<le> j \<and> j < int n then Some (nat j) else None)"

fun index_val :: "json \<Rightarrow> int option" where
  "index_val (JInt i) = Some i"
| "index_val (JBool b) = Some (if b then 1 else 0)"
| "index_val _ = None"

text \<open>\<^verbatim>\<open>c[x]\<close>.\<close>

fun py_getitem :: "json \<Rightarrow> json \<Rightarrow> exn + json" where
  "py_getitem (JDict kvs) x =
     (if hashable x then
        (case x of
           JStr k \<Rightarrow> (case map_of kvs k of None \<Rightarrow> Inl (KeyError (py_repr x)) | Some v \<Rightarrow> Inr v)
         | _ \<Rightarrow> Inl (KeyError (py_repr x)))
      else Inl (unhashable x))"
| "py_getitem (JList xs) x =
     (case index_val x of
        None \<Rightarrow> Inl (TypeError (''list indices must be integers or slices, not '' @ type_name x))
      | Some i \<Rightarrow>
          (case seq_index (length xs) i of
             None \<Rightarrow> Inl (IndexError ''list index out of range'')
           | Some j \<Rightarrow> Inr (xs ! j)))"
| "py_getitem (JStr s) x =
     (case index_val x of
        None \<Rightarrow> Inl (TypeError (''string indices must be integers, not '' @ quoted (type_name x)))
      | Some i \<Rightarrow>
          (case seq_index (length s) i of
             None \<Rightarrow> Inl (IndexError ''string index out of range'')
           | Some j \<Rightarrow> Inr (JStr [s ! j])))"
| "py_getitem c x = Inl (TypeError (quoted (type_name c) @ '' object is not subscriptable''))"

text \<open>
  \<^verbatim>\<open>for x in c\<close>: the elements of a list, the keys of a dictionary, the characters of
  a string.
\<close>

fun py_iter :: "json \<Rightarrow> exn + json list" where
  "py_iter (JList xs) = Inr xs"
| "py_iter (JDict kvs) = Inr (map (\<lambda>kv. JStr (fst kv)) kvs)"
| "py_iter (JStr s) = Inr (map (\<lambda>c. JStr [c]) s)"
| "py_iter x = Inl (TypeError (quoted (type_name x) @ '' object is not iterable''))"

text \<open>
  \<^verbatim>\<open>xs[:n]\<close> on a sequence of Isabelle's lists: a negative \<open>n\<close> drops the last
  \<open>- n\<close> elements, as Python's slice does.
\<close>

definition slice_to :: "'a list \<Rightarrow> int \<Rightarrow> 'a list" where
  "slice_to xs n = take (nat (if n < 0 then int (length xs) + n else n)) xs"

text \<open>
  \<^verbatim>\<open>c[:stop]\<close> on a decoded value: lists and strings slice, with a stop that is
  \<^verbatim>\<open>None\<close> or an integer (a \<^verbatim>\<open>bool\<close> is one).
\<close>

definition bad_stop :: "exn" where
  "bad_stop = TypeError ''slice indices must be integers or None or have an __index__ method''"

fun py_slice_to :: "json \<Rightarrow> json \<Rightarrow> exn + json list" where
  "py_slice_to (JList xs) stop =
     (if stop = JNull then Inr xs
      else (case index_val stop of None \<Rightarrow> Inl bad_stop | Some n \<Rightarrow> Inr (slice_to xs n)))"
| "py_slice_to (JStr s) stop =
     (if stop = JNull then Inr (map (\<lambda>c. JStr [c]) s)
      else (case index_val stop of
              None \<Rightarrow> Inl bad_stop
            | Some n \<Rightarrow> Inr (map (\<lambda>c. JStr [c]) (slice_to s n))))"
| "py_slice_to (JDict kvs) stop = Inl (TypeError (''unhashable type: '' @ quoted ''slice''))"
| "py_slice_to c stop = Inl (TypeError (quoted (type_name c) @ '' object is not subscriptable''))"

section \<open>The remote services\<close>

text \<open>
  A server reaches the gene identifier service with \<^verbatim>\<open>client.get(url, params=...)\<close>
  and the knowledge-graph service with \<^verbatim>\<open>client.post(url, json=query)\<close>. The query
  graph of a POST is fixed by the subject identifier and the target category (lines 37-54 of
  \<^verbatim>\<open>mcpserver_drugdisease.py\<close>), so the request records those two.

  A call either raises (no connection, a timeout) or returns a response. On a response,
  \<^verbatim>\<open>raise_for_status()\<close> raises when the status is not a success, and
  \<^verbatim>\<open>json()\<close> raises when the text does not decode. The services are a function
  from the request to what the call does (within one tool call, the same request has the
  same outcome); the trace lists the requests sent, in order.
\<close>

datatype request =
    Get string "(string \<times> json) list"
  | Post string json string

record response =
  status_error :: "exn option"
  decoded :: "exn + json"

type_synonym world = "request \<Rightarrow> exn + response"

type_synonym trace = "request list"

text \<open>
  The three statements every client runs inside its \<^verbatim>\<open>try\<close>: the call,
  \<^verbatim>\<open>response.raise_for_status()\<close>, \<^verbatim>\<open>response.json()\<close>.
\<close>

definition fetch :: "world \<Rightarrow> request \<Rightarrow> exn + json" where
  "fetch w req =
     ebind (w req) (\<lambda>response.
       case status_error response of
         Some e \<Rightarrow> Inl e
       | None \<Rightarrow> decoded response)"

fun is_lookup :: "request \<Rightarrow> bool" where
  "is_lookup (Get url params) = True"
| "is_lookup (Post url subject category) = False"

fun is_graph_query :: "request \<Rightarrow> bool" where
  "is_graph_query (Get url params) = False"
| "is_graph_query (Post url subject category) = True"

text \<open>What a tool call returns: plain text, or the text of \<^verbatim>\<open>json.dumps(result, indent=2)\<close>.\<close>

datatype content = Text string | JsonText json

definition NCBI_URL :: string where
  "NCBI_URL = ''https://eutils.ncbi.nlm.nih.gov/entrez/eutils/esearch.fcgi''"

definition TRAPI_URL :: string where
  "TRAPI_URL = ''https://api.bte.ncats.io/v1/query''"

definition ARAGORN_URL :: string where
  "ARAGORN_URL = ''https://aragorn.renci.org/1.4/query''"

definition ncbi_params :: "string \<Rightarrow> (string \<times> json) list" where
  "ncbi_params gene_symbol =
     [(''db'', JStr ''gene''),
      (''term'', JStr (gene_symbol @ ''[Gene Name] AND Homo sapiens[Organism]'')),
      (''retmode'', JStr ''json''),
      (''retmax'', JInt 1)]"

text \<open>
  The body of the \<^verbatim>\<open>try\<close> of \<^verbatim>\<open>get_gene_info\<close>, the same in the three
  servers: the first identifier of \<^verbatim>\<open>esearchresult.idlist\<close>, when there is one.
\<close>

definition gene_info_try :: "world \<Rightarrow> string \<Rightarrow> exn + json" where
  "gene_info_try w gene_symbol =
     ebind (fetch w (Get NCBI_URL (ncbi_params gene_symbol))) (\<lambda>data.
     ebind (py_get data ''esearchresult'' (JDict [])) (\<lambda>esearchresult.
     ebind (py_get esearchresult ''idlist'' (JList [])) (\<lambda>id_list.
       if truthy id_list then
         ebind (py_getitem id_list (JInt 0)) (\<lambda>first.
           Inr (JDict [(''gene_symbol'', JStr gene_symbol),
                       (''entrez_id'', first),
                       (''status'', JStr ''found'')]))
       else
         Inr (JDict [(''gene_symbol'', JStr gene_symbol),
                     (''status'', JStr ''not_found'')]))))"

section \<open>The extractor of the drug-disease and the disease-entity server\<close>

text \<open>
  \<^verbatim>\<open>extract_associations\<close> (lines 64-101 of \<^verbatim>\<open>mcpserver_drugdisease.py\<close>) and
  \<^verbatim>\<open>extract_disease_associations\<close> (lines 73-112 of
  \<^verbatim>\<open>mcp_diseaseEntity-checkpoint.py\<close>) are the same statements. They differ in the
  dictionary appended for a node and in the key it keeps the identifier under
  (\<^verbatim>\<open>'id'\<close>, \<^verbatim>\<open>'disease_id'\<close>): these are the parameters \<open>record\<close> and
  \<open>id_key\<close>.
\<close>

text \<open>
  \<^verbatim>\<open>any(i[id_key] == node_id for i in items)\<close>: stops at the first item whose field
  equals the identifier.
\<close>

fun any_field_eq :: "string \<Rightarrow> json \<Rightarrow> json list \<Rightarrow> exn + bool" where
  "any_field_eq id_key node_id [] = Inr False"
| "any_field_eq id_key node_id (i # items) =
     (case py_getitem i (JStr id_key) of
        Inl e \<Rightarrow> Inl e
      | Inr v \<Rightarrow> if py_eq v node_id then Inr True else any_field_eq id_key node_id items)"

text \<open>The loop \<^verbatim>\<open>for node in target_nodes\<close> (lines 84-98 and 95-108).\<close>

fun nodes_loop ::
    "string \<Rightarrow> (json \<Rightarrow> json \<Rightarrow> json \<Rightarrow> json) \<Rightarrow> json \<Rightarrow> json list \<Rightarrow> json list \<Rightarrow>
     exn + json list" where
  "nodes_loop id_key record nodes_map [] items = Inr items"
| "nodes_loop id_key record nodes_map (node # target_nodes) items =
     ebind (py_get node ''id'' JNull) (\<lambda>node_id.
     ebind (py_in node_id nodes_map) (\<lambda>present.
       if present then
         ebind (py_getitem nodes_map node_id) (\<lambda>node_info.
         ebind (py_get node_info ''name'' node_id) (\<lambda>node_name.
         ebind (any_field_eq id_key node_id items) (\<lambda>seen.
           if \<not> seen then
             ebind (py_get node_info ''categories'' (JList [])) (\<lambda>categories.
               nodes_loop id_key record nodes_map target_nodes
                 (items @ [record node_id node_name categories]))
           else nodes_loop id_key record nodes_map target_nodes items)))
       else nodes_loop id_key record nodes_map target_nodes items))"

text \<open>The loop \<^verbatim>\<open>for result in results\<close> (lines 79-98 and 90-108).\<close>

fun results_loop ::
    "string \<Rightarrow> (json \<Rightarrow> json \<Rightarrow> json \<Rightarrow> json) \<Rightarrow> json \<Rightarrow> json list \<Rightarrow> json list \<Rightarrow>
     exn + json list" where
  "results_loop id_key record nodes_map [] items = Inr items"
| "results_loop id_key record nodes_map (result # results) items =
     ebind (py_get result ''node_bindings'' (JDict [])) (\<lambda>node_bindings.
     ebind (py_get node_bindings ''n1'' (JList [])) (\<lambda>n1.
     ebind (py_iter n1) (\<lambda>target_nodes.
     ebind (nodes_loop id_key record nodes_map target_nodes items) (\<lambda>items'.
       results_loop id_key record nodes_map results items'))))"

text \<open>The body of the \<^verbatim>\<open>try\<close> (lines 74-99 and 83-110).\<close>

definition extract_try ::
    "string \<Rightarrow> (json \<Rightarrow> json \<Rightarrow> json \<Rightarrow> json) \<Rightarrow> json \<Rightarrow> exn + json list" where
  "extract_try id_key record kg_result =
     ebind (py_get kg_result ''message'' (JDict [])) (\<lambda>message.
     ebind (py_get message ''results'' (JList [])) (\<lambda>results.
     ebind (py_get message ''knowledge_graph'' (JDict [])) (\<lambda>knowledge_graph.
     ebind (py_get knowledge_graph ''nodes'' (JDict [])) (\<lambda>nodes_map.
     ebind (py_iter results) (\<lambda>rows.
       results_loop id_key record nodes_map rows [])))))"

text \<open>
  The whole function. The test for the \<^verbatim>\<open>"error"\<close> key stands before the
  \<^verbatim>\<open>try\<close>, so what it raises leaves the function; what the \<^verbatim>\<open>try\<close> raises
  becomes the one-element list of the handler.
\<close>

definition extract_associations ::
    "string \<Rightarrow> (json \<Rightarrow> json \<Rightarrow> json \<Rightarrow> json) \<Rightarrow> json \<Rightarrow> exn + json list" where
  "extract_associations id_key record kg_result =
     ebind (py_in (JStr ''error'') kg_result) (\<lambda>failed.
       if failed then
         ebind (py_getitem kg_result (JStr ''error'')) (\<lambda>err. Inr [JDict [(''error'', err)]])
       else
         (case extract_try id_key record kg_result of
            Inr items \<Rightarrow> Inr items
          | Inl e \<Rightarrow> Inr [JDict [(''error'', JStr (''Parsing error: '' @ str_e e))]]))"

section \<open>mcpserver\_drugdisease.py\<close>

text \<open>\<^verbatim>\<open>query_translator_kg(entrez_id, target_category)\<close>, lines 30-62.\<close>

definition drugdisease_query_translator_kg ::
    "world \<Rightarrow> json \<Rightarrow> string \<Rightarrow> trace \<Rightarrow> (exn + json) \<times> trace" where
  "drugdisease_query_translator_kg w entrez_id target_category tr =
     (let req = Post TRAPI_URL entrez_id target_category in
      (case fetch w req of
         Inr document \<Rightarrow> Inr document
       | Inl e \<Rightarrow> Inr (JDict [(''error'', JStr (''Connection error: '' @ str_e e))]),
       tr @ [req]))"

text \<open>\<^verbatim>\<open>extract_associations(kg_result, type_label)\<close>, lines 64-101.\<close>

definition drugdisease_record :: "string \<Rightarrow> json \<Rightarrow> json \<Rightarrow> json \<Rightarrow> json" where
  "drugdisease_record type_label node_id node_name categories =
     JDict [(''id'', node_id),
            (''name'', node_name),
            (''type'', JStr type_label),
            (''categories'', categories)]"

definition drugdisease_extract_associations :: "json \<Rightarrow> string \<Rightarrow> exn + json list" where
  "drugdisease_extract_associations kg_result type_label =
     extract_associations ''id'' (drugdisease_record type_label) kg_result"

text \<open>\<^verbatim>\<open>get_gene_info(gene_symbol)\<close>, lines 103-123.\<close>

definition drugdisease_get_gene_info ::
    "world \<Rightarrow> string \<Rightarrow> trace \<Rightarrow> (exn + json) \<times> trace" where
  "drugdisease_get_gene_info w gene_symbol tr =
     (case gene_info_try w gene_symbol of
        Inr gene_info \<Rightarrow> Inr gene_info
      | Inl e \<Rightarrow> Inr (JDict [(''error'', JStr (str_e e)), (''status'', JStr ''error'')]),
      tr @ [Get NCBI_URL (ncbi_params gene_symbol)])"

text \<open>
  A step of a tool call reads and extends the trace and may raise. \<open>io_bind\<close> runs two
  steps in order, \<open>io_lift\<close> is a step that sends nothing.
\<close>

type_synonym 'a io = "trace \<Rightarrow> (exn + 'a) \<times> trace"

definition io_return :: "'a \<Rightarrow> 'a io" where
  "io_return x tr = (Inr x, tr)"

definition io_lift :: "exn + 'a \<Rightarrow> 'a io" where
  "io_lift m tr = (m, tr)"

definition io_bind :: "'a io \<Rightarrow> ('a \<Rightarrow> 'b io) \<Rightarrow> 'b io" where
  "io_bind m f tr = (case m tr of (Inl e, tr') \<Rightarrow> (Inl e, tr') | (Inr x, tr') \<Rightarrow> f x tr')"

text \<open>The dictionary \<^verbatim>\<open>result\<close> of \<^verbatim>\<open>find_gene_interactions\<close>, lines 175-184.\<close>

definition interactions_result :: "string \<Rightarrow> json \<Rightarrow> json list \<Rightarrow> json list \<Rightarrow> json" where
  "interactions_result gene_symbol entrez_id diseases drugs =
     JDict [(''gene'', JStr gene_symbol),
            (''entrez_id'', entrez_id),
            (''summary'', JDict [(''disease_count'', JInt (int (length diseases))),
                                 (''drug_count'', JInt (int (length drugs)))]),
            (''top_diseases'', JList (slice_to diseases 15)),
            (''top_drugs'', JList (slice_to drugs 15))]"

text \<open>
  \<^verbatim>\<open>call_tool(name, arguments)\<close>, lines 148-189. \<^verbatim>\<open>asyncio.gather\<close> starts the
  disease query, then the drug query, and waits for both.
\<close>

definition drugdisease_call_tool :: "world \<Rightarrow> string \<Rightarrow> json \<Rightarrow> content list io" where
  "drugdisease_call_tool w name arguments =
     (if name = ''find_gene_interactions'' then
        io_bind (io_lift (ebind (py_get arguments ''gene_symbol'' (JStr [])) py_upper)) (\<lambda>gene_symbol.
        io_bind (drugdisease_get_gene_info w gene_symbol) (\<lambda>gene_info.
        io_bind (io_lift (py_get gene_info ''status'' JNull)) (\<lambda>status.
          if \<not> py_eq status (JStr ''found'') then
            io_return [Text (''Could not find gene: '' @ gene_symbol)]
          else
            io_bind (io_lift (py_getitem gene_info (JStr ''entrez_id''))) (\<lambda>entrez_id.
            io_bind (drugdisease_query_translator_kg w entrez_id ''biolink:Disease'') (\<lambda>disease_raw.
            io_bind (drugdisease_query_translator_kg w entrez_id ''biolink:ChemicalEntity'') (\<lambda>drug_raw.
            io_bind (io_lift (drugdisease_extract_associations disease_raw ''Disease'')) (\<lambda>diseases.
            io_bind (io_lift (drugdisease_extract_associations drug_raw ''Drug'')) (\<lambda>drugs.
              io_return [JsonText (interactions_result gene_symbol entrez_id diseases drugs)]))))))))
      else io_lift (Inl (ValueError (''Unknown tool: '' @ name))))"

section \<open>The analysis of a gene list, shared by the two checkpoint servers\<close>

text \<open>
  \<^verbatim>\<open>disease_counts\<close> is a Python dictionary: its keys are compared with \<^verbatim>\<open>==\<close>
  after hashing, an update keeps the place and the key of the entry, a new key goes to the end.
\<close>

type_synonym counts = "(json \<times> int) list"

definition counts_get :: "counts \<Rightarrow> json \<Rightarrow> int \<Rightarrow> exn + int" where
  "counts_get disease_counts k dflt =
     (if hashable k then
        Inr (case find (\<lambda>kv. py_eq (fst kv) k) disease_counts of
               None \<Rightarrow> dflt
             | Some kv \<Rightarrow> snd kv)
      else Inl (unhashable k))"

definition counts_set :: "counts \<Rightarrow> json \<Rightarrow> int \<Rightarrow> exn + counts" where
  "counts_set disease_counts k v =
     (if hashable k then
        Inr (if list_ex (\<lambda>kv. py_eq (fst kv) k) disease_counts
             then map (\<lambda>kv. if py_eq (fst kv) k then (fst kv, v) else kv) disease_counts
             else disease_counts @ [(k, v)])
      else Inl (unhashable k))"

text \<open>
  The loop \<^verbatim>\<open>for disease in diseases\<close> (lines 329-331 of the generic server,
  297-299 of the disease-entity server).
\<close>

fun count_diseases :: "json list \<Rightarrow> counts \<Rightarrow> exn + counts" where
  "count_diseases [] disease_counts = Inr disease_counts"
| "count_diseases (disease # diseases) disease_counts =
     ebind (py_get disease ''disease_name'' (JStr ''Unknown'')) (\<lambda>disease_name.
     ebind (counts_get disease_counts disease_name 0) (\<lambda>n.
     ebind (counts_set disease_counts disease_name (n + 1)) (\<lambda>disease_counts'.
       count_diseases diseases disease_counts')))"

text \<open>
  The loop \<^verbatim>\<open>for gene_symbol in gene_symbols\<close> (lines 315-331 and 284-299). The
  servers differ in the three functions they call, which are the parameters here.
\<close>

fun gene_loop ::
    "(string \<Rightarrow> json io) \<Rightarrow> (json \<Rightarrow> json io) \<Rightarrow> (json \<Rightarrow> exn + json list) \<Rightarrow>
     string list \<Rightarrow> json list \<times> counts \<Rightarrow> (json list \<times> counts) io" where
  "gene_loop get_gene_info query_translator_kg extract_disease_associations [] st = io_return st"
| "gene_loop get_gene_info query_translator_kg extract_disease_associations (gene_symbol # gene_symbols) st =
     io_bind (get_gene_info gene_symbol) (\<lambda>gene_info.
     io_bind (io_lift (py_get gene_info ''status'' JNull)) (\<lambda>status.
       if py_eq status (JStr ''found'') then
         io_bind (io_lift (py_getitem gene_info (JStr ''entrez_id''))) (\<lambda>entrez_id.
         io_bind (query_translator_kg entrez_id) (\<lambda>kg_result.
         io_bind (io_lift (extract_disease_associations kg_result)) (\<lambda>diseases.
         io_bind (io_lift (count_diseases diseases (snd st))) (\<lambda>disease_counts.
           gene_loop get_gene_info query_translator_kg extract_disease_associations gene_symbols
             (fst st @ [JDict [(''gene'', JStr gene_symbol),
                               (''entrez_id'', entrez_id),
                               (''disease_count'', JInt (int (length diseases)))]],
              disease_counts)))))
       else
         gene_loop get_gene_info query_translator_kg extract_disease_associations gene_symbols st))"

text \<open>\<^verbatim>\<open>[g.upper() for g in ...]\<close>.\<close>

fun upper_all :: "json list \<Rightarrow> exn + string list" where
  "upper_all [] = Inr []"
| "upper_all (g # gs) =
     ebind (py_upper g) (\<lambda>u. ebind (upper_all gs) (\<lambda>us. Inr (u # us)))"

text \<open>
  \<^verbatim>\<open>sorted(xs, key=f, reverse=True)\<close>: CPython reverses the list, sorts it stably in
  ascending order of the key and reverses the outcome. \<open>sort_key\<close> is a stable sort, and a
  stable sort has one outcome.
\<close>

definition sorted_reverse :: "('a \<Rightarrow> int) \<Rightarrow> 'a list \<Rightarrow> 'a list" where
  "sorted_reverse f xs = rev (sort_key f (rev xs))"

text \<open>
  \<^verbatim>\<open>sorted(disease_counts.items(), key=lambda x: x[1], reverse=True)[:10]\<close> and the
  list of dictionaries made of it (lines 334-347 and 301-311).
\<close>

definition common_diseases :: "counts \<Rightarrow> (json \<times> int) list" where
  "common_diseases disease_counts = slice_to (sorted_reverse snd disease_counts) 10"

definition common_diseases_json :: "counts \<Rightarrow> json" where
  "common_diseases_json disease_counts =
     JList (map (\<lambda>d. JDict [(''disease'', fst d), (''gene_count'', JInt (snd d))])
                (common_diseases disease_counts))"

text \<open>
  The branch \<^verbatim>\<open>analyze_gene_list\<close> of \<^verbatim>\<open>call_tool\<close> (lines 305-352 and 274-315).
  \<open>summary\<close> builds the dictionary that is printed, which orders its keys differently in
  the two servers.
\<close>

definition analyze_gene_list ::
    "(string \<Rightarrow> json io) \<Rightarrow> (json \<Rightarrow> json io) \<Rightarrow> (json \<Rightarrow> exn + json list) \<Rightarrow>
     (string list \<Rightarrow> json list \<Rightarrow> counts \<Rightarrow> json) \<Rightarrow> json \<Rightarrow> content list io" where
  "analyze_gene_list get_gene_info query_translator_kg extract_disease_associations summary arguments =
     io_bind (io_lift (py_get arguments ''gene_symbols'' (JList []))) (\<lambda>gene_symbols.
     io_bind (io_lift (py_get arguments ''limit'' (JInt 5))) (\<lambda>limit.
     io_bind (io_lift (ebind (py_slice_to gene_symbols limit) upper_all)) (\<lambda>gene_symbols.
     io_bind (gene_loop get_gene_info query_translator_kg extract_disease_associations
                gene_symbols ([], [])) (\<lambda>st.
       io_return [JsonText (summary gene_symbols (fst st) (snd st))]))))"

section \<open>mcp\_diseaseEntity-checkpoint.py\<close>

text \<open>
  \<^verbatim>\<open>query_translator_kg(entrez_id)\<close>, lines 35-71: the handler of
  \<^verbatim>\<open>httpx.HTTPStatusError\<close> comes first.
\<close>

definition diseaseEntity_query_translator_kg :: "world \<Rightarrow> json \<Rightarrow> json io" where
  "diseaseEntity_query_translator_kg w entrez_id tr =
     (let req = Post TRAPI_URL entrez_id ''biolink:Disease'' in
      (case fetch w req of
         Inr document \<Rightarrow> Inr document
       | Inl (HTTPStatusError code body m) \<Rightarrow>
           Inr (JDict [(''error'', JStr (''HTTP Error: '' @ show_nat code @ '' - '' @ body))])
       | Inl e \<Rightarrow> Inr (JDict [(''error'', JStr (''Connection error: '' @ str_e e))]),
       tr @ [req]))"

text \<open>\<^verbatim>\<open>extract_disease_associations(kg_result)\<close>, lines 73-112.\<close>

definition diseaseEntity_record :: "json \<Rightarrow> json \<Rightarrow> json \<Rightarrow> json" where
  "diseaseEntity_record disease_id disease_name categories =
     JDict [(''disease_id'', disease_id),
            (''disease_name'', disease_name),
            (''categories'', categories)]"

definition diseaseEntity_extract_disease_associations :: "json \<Rightarrow> exn + json list" where
  "diseaseEntity_extract_disease_associations kg_result =
     extract_associations ''disease_id'' diseaseEntity_record kg_result"

text \<open>\<^verbatim>\<open>get_gene_info(gene_symbol)\<close>, lines 114-148.\<close>

definition diseaseEntity_get_gene_info :: "world \<Rightarrow> string \<Rightarrow> json io" where
  "diseaseEntity_get_gene_info w gene_symbol tr =
     (case gene_info_try w gene_symbol of
        Inr gene_info \<Rightarrow> Inr gene_info
      | Inl e \<Rightarrow> Inr (JDict [(''gene_symbol'', JStr gene_symbol),
                             (''status'', JStr ''error''),
                             (''error'', JStr (str_e e))]),
      tr @ [Get NCBI_URL (ncbi_params gene_symbol)])"

definition diseaseEntity_summary :: "string list \<Rightarrow> json list \<Rightarrow> counts \<Rightarrow> json" where
  "diseaseEntity_summary gene_symbols results disease_counts =
     JDict [(''genes_analyzed'', JList (map JStr gene_symbols)),
            (''common_diseases'', common_diseases_json disease_counts),
            (''details'', JList results)]"

text \<open>\<^verbatim>\<open>call_tool(name, arguments)\<close>, lines 245-318.\<close>

definition diseaseEntity_call_tool :: "world \<Rightarrow> string \<Rightarrow> json \<Rightarrow> content list io" where
  "diseaseEntity_call_tool w name arguments =
     (if name = ''find_gene_diseases'' then
        io_bind (io_lift (ebind (py_get arguments ''gene_symbol'' (JStr [])) py_upper)) (\<lambda>gene_symbol.
        io_bind (diseaseEntity_get_gene_info w gene_symbol) (\<lambda>gene_info.
        io_bind (io_lift (py_get gene_info ''status'' JNull)) (\<lambda>status.
          if \<not> py_eq status (JStr ''found'') then
            io_return [Text (''Could not find gene: '' @ gene_symbol)]
          else
            io_bind (io_lift (py_getitem gene_info (JStr ''entrez_id''))) (\<lambda>entrez_id.
            io_bind (diseaseEntity_query_translator_kg w entrez_id) (\<lambda>kg_result.
            io_bind (io_lift (diseaseEntity_extract_disease_associations kg_result)) (\<lambda>diseases.
              io_return [JsonText (JDict
                [(''gene'', JStr gene_symbol),
                 (''entrez_id'', entrez_id),
                 (''disease_associations'', JList (slice_to diseases 20)),
                 (''total_diseases_found'', JInt (int (length diseases)))])]))))))
      else if name = ''get_gene_info'' then
        io_bind (io_lift (ebind (py_get arguments ''gene_symbol'' (JStr [])) py_upper)) (\<lambda>gene_symbol.
        io_bind (diseaseEntity_get_gene_info w gene_symbol) (\<lambda>gene_info.
          io_return [JsonText gene_info]))
      else if name = ''analyze_gene_list'' then
        analyze_gene_list (diseaseEntity_get_gene_info w) (diseaseEntity_query_translator_kg w)
          diseaseEntity_extract_disease_associations diseaseEntity_summary arguments
      else io_lift (Inl (ValueError (''Unknown tool: '' @ name))))"

section \<open>mcp\_generic-checkpoint.py\<close>

text \<open>\<^verbatim>\<open>query_translator_kg(gene_name)\<close>, lines 32-67.\<close>

definition generic_query_translator_kg :: "world \<Rightarrow> json \<Rightarrow> json io" where
  "generic_query_translator_kg w gene_name tr =
     (let req = Post ARAGORN_URL gene_name ''biolink:Disease'' in
      (case fetch w req of
         Inr document \<Rightarrow> Inr document
       | Inl e \<Rightarrow> Inr (JDict [(''error'', JStr (str_e e))]),
       tr @ [req]))"

text \<open>
  The loop \<^verbatim>\<open>for disease_node in disease_nodes\<close>, lines 93-105. It reads
  \<^verbatim>\<open>knowledge_graph.get("nodes", {})\<close> anew for every node and appends without
  looking at what the list holds.
\<close>

fun generic_nodes_loop :: "json \<Rightarrow> json list \<Rightarrow> json list \<Rightarrow> exn + json list" where
  "generic_nodes_loop knowledge_graph [] diseases = Inr diseases"
| "generic_nodes_loop knowledge_graph (disease_node # disease_nodes) diseases =
     ebind (py_get disease_node ''id'' JNull) (\<lambda>disease_id.
     ebind (py_get knowledge_graph ''nodes'' (JDict [])) (\<lambda>nodes.
     ebind (py_in disease_id nodes) (\<lambda>present.
       if present then
         ebind (py_getitem knowledge_graph (JStr ''nodes'')) (\<lambda>nodes'.
         ebind (py_getitem nodes' disease_id) (\<lambda>disease_info.
         ebind (py_get disease_info ''name'' disease_id) (\<lambda>disease_name.
         ebind (py_get disease_info ''categories'' (JList [])) (\<lambda>categories.
           generic_nodes_loop knowledge_graph disease_nodes
             (diseases @ [JDict [(''disease_id'', disease_id),
                                 (''disease_name'', disease_name),
                                 (''categories'', categories)]])))))
       else generic_nodes_loop knowledge_graph disease_nodes diseases)))"

text \<open>The loop \<^verbatim>\<open>for result in results\<close>, lines 89-105.\<close>

fun generic_results_loop :: "json \<Rightarrow> json list \<Rightarrow> json list \<Rightarrow> exn + json list" where
  "generic_results_loop knowledge_graph [] diseases = Inr diseases"
| "generic_results_loop knowledge_graph (result # results) diseases =
     ebind (py_get result ''node_bindings'' (JDict [])) (\<lambda>node_bindings.
     ebind (py_get node_bindings ''n1'' (JList [])) (\<lambda>n1.
     ebind (py_iter n1) (\<lambda>disease_nodes.
     ebind (generic_nodes_loop knowledge_graph disease_nodes diseases) (\<lambda>diseases'.
       generic_results_loop knowledge_graph results diseases'))))"

definition generic_extract_try :: "json \<Rightarrow> exn + json list" where
  "generic_extract_try kg_result =
     ebind (py_get kg_result ''message'' (JDict [])) (\<lambda>message.
     ebind (py_get message ''results'' (JList [])) (\<lambda>results.
     ebind (py_get kg_result ''message'' (JDict [])) (\<lambda>message'.
     ebind (py_get message' ''knowledge_graph'' (JDict [])) (\<lambda>knowledge_graph.
     ebind (py_iter results) (\<lambda>rows.
       generic_results_loop knowledge_graph rows [])))))"

text \<open>\<^verbatim>\<open>extract_disease_associations(kg_result)\<close>, lines 70-109.\<close>

definition generic_extract_disease_associations :: "json \<Rightarrow> exn + json list" where
  "generic_extract_disease_associations kg_result =
     ebind (py_in (JStr ''error'') kg_result) (\<lambda>failed.
       if failed then
         ebind (py_getitem kg_result (JStr ''error'')) (\<lambda>err. Inr [JDict [(''error'', err)]])
       else
         (case generic_extract_try kg_result of
            Inr diseases \<Rightarrow> Inr diseases
          | Inl e \<Rightarrow> Inr [JDict [(''error'', JStr (''Parsing error: '' @ str_e e))]]))"

text \<open>\<^verbatim>\<open>get_gene_info(gene_symbol)\<close>, lines 112-152.\<close>

definition generic_get_gene_info :: "world \<Rightarrow> string \<Rightarrow> json io" where
  "generic_get_gene_info w gene_symbol tr =
     (case gene_info_try w gene_symbol of
        Inr gene_info \<Rightarrow> Inr gene_info
      | Inl e \<Rightarrow> Inr (JDict [(''gene_symbol'', JStr gene_symbol),
                             (''status'', JStr ''error''),
                             (''error'', JStr (str_e e))]),
      tr @ [Get NCBI_URL (ncbi_params gene_symbol)])"

definition generic_summary :: "string list \<Rightarrow> json list \<Rightarrow> counts \<Rightarrow> json" where
  "generic_summary gene_symbols results disease_counts =
     JDict [(''genes_analyzed'', JList (map JStr gene_symbols)),
            (''results'', JList results),
            (''common_diseases'', common_diseases_json disease_counts)]"

text \<open>\<^verbatim>\<open>call_tool(name, arguments)\<close>, lines 262-355.\<close>

definition generic_call_tool :: "world \<Rightarrow> string \<Rightarrow> json \<Rightarrow> content list io" where
  "generic_call_tool w name arguments =
     (if name = ''find_gene_diseases'' then
        io_bind (io_lift (ebind (py_get arguments ''gene_symbol'' (JStr [])) py_upper)) (\<lambda>gene_symbol.
        io_bind (generic_get_gene_info w gene_symbol) (\<lambda>gene_info.
        io_bind (io_lift (py_get gene_info ''status'' JNull)) (\<lambda>status.
          if \<not> py_eq status (JStr ''found'') then
            io_return [Text (''Could not find gene: '' @ gene_symbol)]
          else
            io_bind (io_lift (py_getitem gene_info (JStr ''entrez_id''))) (\<lambda>entrez_id.
            io_bind (generic_query_translator_kg w entrez_id) (\<lambda>kg_result.
            io_bind (io_lift (generic_extract_disease_associations kg_result)) (\<lambda>diseases.
              io_return [JsonText (JDict
                [(''gene'', JStr gene_symbol),
                 (''entrez_id'', entrez_id),
                 (''disease_associations'', JList diseases),
                 (''total_diseases_found'', JInt (int (length diseases)))])]))))))
      else if name = ''get_gene_info'' then
        io_bind (io_lift (ebind (py_get arguments ''gene_symbol'' (JStr [])) py_upper)) (\<lambda>gene_symbol.
        io_bind (generic_get_gene_info w gene_symbol) (\<lambda>gene_info.
          io_return [JsonText gene_info]))
      else if name = ''analyze_gene_list'' then
        analyze_gene_list (generic_get_gene_info w) (generic_query_translator_kg w)
          generic_extract_disease_associations generic_summary arguments
      else io_lift (Inl (ValueError (''Unknown tool: '' @ name))))"

section \<open>Notions used in the statements\<close>

text \<open>
  A call fails with \<open>e\<close> when the transport raises \<open>e\<close>, when the status check raises
  \<open>e\<close>, or when the decoding of the body raises \<open>e\<close>.
\<close>

definition failed :: "world \<Rightarrow> request \<Rightarrow> exn \<Rightarrow> bool" where
  "failed w req e =
     (case w req of
        Inl e' \<Rightarrow> e' = e
      | Inr response \<Rightarrow>
          (case status_error response of
             Some e' \<Rightarrow> e' = e
           | None \<Rightarrow> decoded response = Inl e))"

text \<open>A field of the dictionary that a tool call printed.\<close>

definition reply_field :: "(exn + content list) \<times> trace \<Rightarrow> string \<Rightarrow> json option" where
  "reply_field r key =
     (case fst r of
        Inr [JsonText (JDict kvs)] \<Rightarrow> map_of kvs key
      | _ \<Rightarrow> None)"

text \<open>\<^verbatim>\<open>disease_counts.get(k, 0)\<close> for a key that hashes.\<close>

definition tally :: "counts \<Rightarrow> json \<Rightarrow> int" where
  "tally disease_counts k =
     (case find (\<lambda>kv. py_eq (fst kv) k) disease_counts of
        None \<Rightarrow> 0
      | Some kv \<Rightarrow> snd kv)"


text \<open>
  The list of the first occurrences of the elements of a list, in the order of the list.
\<close>

fun first_occurrences :: "'a list \<Rightarrow> 'a list" where
  "first_occurrences [] = []"
| "first_occurrences (x # xs) = x # filter (\<lambda>y. y \<noteq> x) (first_occurrences xs)"

text \<open>
  The identifiers that a document binds, in the order of its rows: those of the nodes
  under \<^verbatim>\<open>node_bindings.n1\<close> that are strings and keys of the node catalogue.
\<close>

definition node_ids :: "(string \<times> json) list \<Rightarrow> json list \<Rightarrow> string list" where
  "node_ids nodes target_nodes =
     concat (map (\<lambda>node. case py_get node ''id'' JNull of
                             Inr (JStr k) \<Rightarrow> if map_of nodes k \<noteq> None then [k] else []
                           | _ \<Rightarrow> []) target_nodes)"

definition row_nodes :: "json \<Rightarrow> json list" where
  "row_nodes result =
     (case ebind (py_get result ''node_bindings'' (JDict [])) (\<lambda>node_bindings.
           ebind (py_get node_bindings ''n1'' (JList [])) py_iter) of
        Inr target_nodes \<Rightarrow> target_nodes
      | Inl e \<Rightarrow> [])"

definition bound_ids :: "(string \<times> json) list \<Rightarrow> json list \<Rightarrow> string list" where
  "bound_ids nodes rows = node_ids nodes (concat (map row_nodes rows))"

text \<open>The record made for an identifier from its entry in the node catalogue.\<close>

definition entry_record ::
    "(json \<Rightarrow> json \<Rightarrow> json \<Rightarrow> json) \<Rightarrow> (string \<times> json) list \<Rightarrow> string \<Rightarrow> json" where
  "entry_record record nodes k =
     (case map_of nodes k of
        Some (JDict node_info) \<Rightarrow>
          record (JStr k)
            (case map_of node_info ''name'' of None \<Rightarrow> JStr k | Some name \<Rightarrow> name)
            (case map_of node_info ''categories'' of None \<Rightarrow> JList [] | Some cs \<Rightarrow> cs)
      | _ \<Rightarrow> JNull)"

text \<open>The identifiers held so far, followed by the first occurrences of the new ones.\<close>

definition merge_ids :: "'a list \<Rightarrow> 'a list \<Rightarrow> 'a list" where
  "merge_ids ks new = ks @ filter (\<lambda>k. k \<notin> set ks) (first_occurrences new)"

text \<open>A record keeps its identifier under the key that the duplicate test reads.\<close>

definition keeps_id :: "string \<Rightarrow> (json \<Rightarrow> json \<Rightarrow> json \<Rightarrow> json) \<Rightarrow> bool" where
  "keeps_id id_key record = (\<forall>i n c. py_getitem (record i n c) (JStr id_key) = Inr i)"

text \<open>Every identifier of the list has a dictionary as its entry in the node catalogue.\<close>

definition dict_entries :: "(string \<times> json) list \<Rightarrow> string list \<Rightarrow> bool" where
  "dict_entries nodes ks = (\<forall>k \<in> set ks. \<exists>node_info. map_of nodes k = Some (JDict node_info))"

text \<open>
  A resolver sends one lookup and a query client sends one graph query, whatever they
  return.
\<close>

definition sends_one_lookup :: "(string \<Rightarrow> json io) \<Rightarrow> bool" where
  "sends_one_lookup get_gene_info =
     (\<forall>s tr. snd (get_gene_info s tr) = tr @ [Get NCBI_URL (ncbi_params s)])"

definition sends_one_query :: "(json \<Rightarrow> json io) \<Rightarrow> bool" where
  "sends_one_query query_translator_kg =
     (\<forall>i tr. \<exists>url category. snd (query_translator_kg i tr) = tr @ [Post url i category])"

section \<open>Services and documents used by the examples\<close>

definition ok_response :: "json \<Rightarrow> exn + response" where
  "ok_response document = Inr \<lparr>status_error = None, decoded = Inr document\<rparr>"

definition id_list_document :: "string list \<Rightarrow> json" where
  "id_list_document ids = JDict [(''esearchresult'', JDict [(''idlist'', JList (map JStr ids))])]"

definition binding_row :: "string list \<Rightarrow> json" where
  "binding_row ids =
     JDict [(''node_bindings'', JDict [(''n1'', JList (map (\<lambda>i. JDict [(''id'', JStr i)]) ids))])]"

definition graph_document :: "json list \<Rightarrow> (string \<times> json) list \<Rightarrow> json" where
  "graph_document rows nodes =
     JDict [(''message'', JDict [(''results'', JList rows),
                                 (''knowledge_graph'', JDict [(''nodes'', JDict nodes)])])]"

text \<open>
  The identifier service knows APOE (348) and APP (351), has no match for any other symbol
  but PSEN1, for which the call times out. The graph service relates APOE to one disease
  under three identifiers, in four rows, and to a node without a name; it relates APP to
  the same disease under one identifier. Every query for chemical entities times out.
\<close>

definition apoe_document :: json where
  "apoe_document =
     graph_document
       [binding_row [''MONDO:0004975''], binding_row [''DOID:10652''],
        binding_row [''UMLS:C0002395'', ''HP:0002511''], binding_row [''MONDO:0004975'']]
       [(''MONDO:0004975'', JDict [(''name'', JStr ''Alzheimer disease''),
                                   (''categories'', JList [JStr ''biolink:Disease''])]),
        (''DOID:10652'', JDict [(''name'', JStr ''Alzheimer disease'')]),
        (''UMLS:C0002395'', JDict [(''name'', JStr ''Alzheimer disease'')]),
        (''HP:0002511'', JDict [])]"

definition app_document :: json where
  "app_document =
     graph_document [binding_row [''MONDO:0004975'']]
       [(''MONDO:0004975'', JDict [(''name'', JStr ''Alzheimer disease'')])]"

definition example_services :: world where
  "example_services req =
     (case req of
        Get url params \<Rightarrow>
          (if params = ncbi_params ''APOE'' then ok_response (id_list_document [''348''])
           else if params = ncbi_params ''APP'' then ok_response (id_list_document [''351''])
           else if params = ncbi_params ''PSEN1'' then Inl (TransportError ''timed out'')
           else ok_response (id_list_document []))
      | Post url subject category \<Rightarrow>
          (if category \<noteq> ''biolink:Disease'' then Inl (TransportError ''timed out'')
           else if subject = JStr ''348'' then ok_response apoe_document
           else if subject = JStr ''351'' then ok_response app_document
           else ok_response (graph_document [] [])))"


section \<open>Basic facts\<close>

lemma ebind_Inl [simp]: "ebind (Inl e) f = Inl e"
  by (simp add: ebind_def)

lemma ebind_Inr [simp]: "ebind (Inr x) f = f x"
  by (simp add: ebind_def)

lemma ebind_eq_Inr: "ebind m f = Inr y \<longleftrightarrow> (\<exists>x. m = Inr x \<and> f x = Inr y)"
  by (cases m) auto

lemma py_eq_JStr [simp]: "py_eq v (JStr s) = (v = JStr s)"
  by (cases v) auto

lemma io_bind_lift_Inr [simp]: "io_bind (io_lift (Inr x)) f tr = f x tr"
  by (simp add: io_bind_def io_lift_def)

lemma io_bind_lift_Inl [simp]: "io_bind (io_lift (Inl e)) f tr = (Inl e, tr)"
  by (simp add: io_bind_def io_lift_def)

lemma io_bind_Inr: "m tr = (Inr x, tr') \<Longrightarrow> io_bind m f tr = f x tr'"
  by (simp add: io_bind_def)

lemma io_bind_Inl: "m tr = (Inl e, tr') \<Longrightarrow> io_bind m f tr = (Inl e, tr')"
  by (simp add: io_bind_def)

lemma slice_to_nat [simp]: "slice_to xs (int n) = take n xs"
  by (simp add: slice_to_def)

lemma slice_to_numeral [simp]: "slice_to xs (numeral k) = take (numeral k) xs"
  by (simp add: slice_to_def)

lemmas example_defs =
  example_services_def ok_response_def id_list_document_def binding_row_def
  graph_document_def apoe_document_def app_document_def ncbi_params_def fetch_def
  NCBI_URL_def TRAPI_URL_def ARAGORN_URL_def

subsection \<open>The identifier resolver\<close>

lemma gene_info_try_cases:
  "(\<exists>e. gene_info_try w s = Inl e)
   \<or> (\<exists>first. gene_info_try w s =
         Inr (JDict [(''gene_symbol'', JStr s), (''entrez_id'', first), (''status'', JStr ''found'')]))
   \<or> gene_info_try w s = Inr (JDict [(''gene_symbol'', JStr s), (''status'', JStr ''not_found'')])"
  by (auto simp: gene_info_try_def ebind_def split: sum.splits)

lemma fetch_failed: "fetch w req = Inl e \<longleftrightarrow> failed w req e"
  by (auto simp: fetch_def failed_def ebind_def split: sum.splits option.splits)

lemma gene_info_try_failed:
  "failed w (Get NCBI_URL (ncbi_params s)) e \<Longrightarrow> gene_info_try w s = Inl e"
  by (simp add: gene_info_try_def fetch_failed [symmetric])

text \<open>
  C6. Whatever the identifier service does, \<^verbatim>\<open>get_gene_info\<close> returns a dictionary
  whose status is \<^verbatim>\<open>found\<close>, \<^verbatim>\<open>not_found\<close> or \<^verbatim>\<open>error\<close>, and the dictionary
  has the key \<^verbatim>\<open>entrez_id\<close> exactly when the status is \<^verbatim>\<open>found\<close>. This holds in
  the drug-disease server, the generic server and the disease-entity server.
\<close>

theorem identifier_iff_found:
  "(\<exists>gene_info status.
      fst (drugdisease_get_gene_info w s tr) = Inr gene_info
      \<and> py_get gene_info ''status'' JNull = Inr (JStr status)
      \<and> (status = ''found'' \<or> status = ''not_found'' \<or> status = ''error'')
      \<and> (py_in (JStr ''entrez_id'') gene_info = Inr True) = (status = ''found''))
   \<and> (\<exists>gene_info status.
      fst (generic_get_gene_info w s tr) = Inr gene_info
      \<and> py_get gene_info ''status'' JNull = Inr (JStr status)
      \<and> (status = ''found'' \<or> status = ''not_found'' \<or> status = ''error'')
      \<and> (py_in (JStr ''entrez_id'') gene_info = Inr True) = (status = ''found''))
   \<and> (\<exists>gene_info status.
      fst (diseaseEntity_get_gene_info w s tr) = Inr gene_info
      \<and> py_get gene_info ''status'' JNull = Inr (JStr status)
      \<and> (status = ''found'' \<or> status = ''not_found'' \<or> status = ''error'')
      \<and> (py_in (JStr ''entrez_id'') gene_info = Inr True) = (status = ''found''))"
  using gene_info_try_cases [of w s]
  by (auto simp: drugdisease_get_gene_info_def generic_get_gene_info_def
        diseaseEntity_get_gene_info_def)

lemma apoe_found:
  "gene_info_try example_services ''APOE'' =
     Inr (JDict [(''gene_symbol'', JStr ''APOE''), (''entrez_id'', JStr ''348''),
                 (''status'', JStr ''found'')])"
  by (simp add: gene_info_try_def example_defs seq_index_def)

lemma app_found:
  "gene_info_try example_services ''APP'' =
     Inr (JDict [(''gene_symbol'', JStr ''APP''), (''entrez_id'', JStr ''351''),
                 (''status'', JStr ''found'')])"
  by (simp add: gene_info_try_def example_defs seq_index_def)

lemma zzz_not_found:
  "gene_info_try example_services ''ZZZNOTAGENE'' =
     Inr (JDict [(''gene_symbol'', JStr ''ZZZNOTAGENE''), (''status'', JStr ''not_found'')])"
  by (simp add: gene_info_try_def example_defs)

lemma psen1_error:
  "gene_info_try example_services ''PSEN1'' = Inl (TransportError ''timed out'')"
  by (simp add: gene_info_try_def example_defs)

theorem identifier_iff_found_witness:
  "fst (drugdisease_get_gene_info example_services ''APOE'' []) =
     Inr (JDict [(''gene_symbol'', JStr ''APOE''), (''entrez_id'', JStr ''348''),
                 (''status'', JStr ''found'')])
   \<and> fst (generic_get_gene_info example_services ''ZZZNOTAGENE'' []) =
     Inr (JDict [(''gene_symbol'', JStr ''ZZZNOTAGENE''), (''status'', JStr ''not_found'')])
   \<and> fst (diseaseEntity_get_gene_info example_services ''PSEN1'' []) =
     Inr (JDict [(''gene_symbol'', JStr ''PSEN1''), (''status'', JStr ''error''),
                 (''error'', JStr ''timed out'')])
   \<and> (\<exists>gene_info status.
      fst (drugdisease_get_gene_info example_services ''APOE'' []) = Inr gene_info
      \<and> py_get gene_info ''status'' JNull = Inr (JStr status)
      \<and> (py_in (JStr ''entrez_id'') gene_info = Inr True) = (status = ''found''))"
  using identifier_iff_found [of example_services "''APOE''" "[]"]
  by (simp add: drugdisease_get_gene_info_def generic_get_gene_info_def
        diseaseEntity_get_gene_info_def apoe_found zzz_not_found psen1_error)

text \<open>
  C7. In the drug-disease server, when the call to the identifier service fails
  (transport or timeout, status check, decoding), \<^verbatim>\<open>get_gene_info\<close> returns the
  dictionary with status \<^verbatim>\<open>error\<close> and the text of the exception; when the call to the
  graph service fails, \<^verbatim>\<open>query_translator_kg\<close> returns the dictionary with the key
  \<^verbatim>\<open>error\<close>. Neither function raises, whatever the services do.
\<close>

theorem failures_returned_as_data:
  "(failed w (Get NCBI_URL (ncbi_params gene_symbol)) e \<longrightarrow>
      fst (drugdisease_get_gene_info w gene_symbol tr) =
        Inr (JDict [(''error'', JStr (str_e e)), (''status'', JStr ''error'')]))
   \<and> (failed w (Post TRAPI_URL entrez_id target_category) e \<longrightarrow>
      fst (drugdisease_query_translator_kg w entrez_id target_category tr) =
        Inr (JDict [(''error'', JStr (''Connection error: '' @ str_e e))]))
   \<and> (\<exists>v. fst (drugdisease_get_gene_info w gene_symbol tr) = Inr v)
   \<and> (\<exists>v. fst (drugdisease_query_translator_kg w entrez_id target_category tr) = Inr v)"
  by (auto simp: drugdisease_get_gene_info_def drugdisease_query_translator_kg_def Let_def
        gene_info_try_failed fetch_failed [symmetric] split: sum.splits)

theorem failures_returned_as_data_witness:
  "failed example_services (Get NCBI_URL (ncbi_params ''PSEN1'')) (TransportError ''timed out'')
   \<and> failed example_services (Post TRAPI_URL (JStr ''348'') ''biolink:ChemicalEntity'')
        (TransportError ''timed out'')
   \<and> fst (drugdisease_get_gene_info example_services ''PSEN1'' []) =
        Inr (JDict [(''error'', JStr ''timed out''), (''status'', JStr ''error'')])
   \<and> fst (drugdisease_query_translator_kg example_services (JStr ''348'')
             ''biolink:ChemicalEntity'' []) =
        Inr (JDict [(''error'', JStr ''Connection error: timed out'')])"
proof -
  have f1: "failed example_services (Get NCBI_URL (ncbi_params ''PSEN1''))
              (TransportError ''timed out'')"
    by (simp add: failed_def example_defs)
  have f2: "failed example_services (Post TRAPI_URL (JStr ''348'') ''biolink:ChemicalEntity'')
              (TransportError ''timed out'')"
    by (simp add: failed_def example_defs)
  show ?thesis
    using f1 f2
      failures_returned_as_data [of example_services "''PSEN1''" "TransportError ''timed out''"
        "[]" "JStr ''348''" "''biolink:ChemicalEntity''"]
    by simp
qed

subsection \<open>The single-gene tools\<close>

lemma drugdisease_get_gene_info_run:
  "drugdisease_get_gene_info w s tr =
     (fst (drugdisease_get_gene_info w s []), tr @ [Get NCBI_URL (ncbi_params s)])"
  by (simp add: drugdisease_get_gene_info_def)

lemma generic_get_gene_info_run:
  "generic_get_gene_info w s tr =
     (fst (generic_get_gene_info w s []), tr @ [Get NCBI_URL (ncbi_params s)])"
  by (simp add: generic_get_gene_info_def)

lemma diseaseEntity_get_gene_info_run:
  "diseaseEntity_get_gene_info w s tr =
     (fst (diseaseEntity_get_gene_info w s []), tr @ [Get NCBI_URL (ncbi_params s)])"
  by (simp add: diseaseEntity_get_gene_info_def)

lemma drugdisease_query_translator_kg_run:
  "drugdisease_query_translator_kg w i c tr =
     (fst (drugdisease_query_translator_kg w i c []), tr @ [Post TRAPI_URL i c])"
  by (simp add: drugdisease_query_translator_kg_def Let_def)



lemma status_is_returned:
  assumes "fst (drugdisease_get_gene_info w s tr) = Inr gene_info
           \<or> fst (generic_get_gene_info w s tr) = Inr gene_info
           \<or> fst (diseaseEntity_get_gene_info w s tr) = Inr gene_info"
  shows "\<exists>status. py_get gene_info ''status'' JNull = Inr status"
  using assms gene_info_try_cases [of w s]
  by (auto simp: drugdisease_get_gene_info_def generic_get_gene_info_def
        diseaseEntity_get_gene_info_def)

lemma drugdisease_not_found_run:
  assumes "ebind (py_get arguments ''gene_symbol'' (JStr [])) py_upper = Inr gene_symbol"
    and "fst (drugdisease_get_gene_info w gene_symbol tr) = Inr gene_info"
    and "py_get gene_info ''status'' JNull \<noteq> Inr (JStr ''found'')"
  shows "drugdisease_call_tool w ''find_gene_interactions'' arguments tr =
           (Inr [Text (''Could not find gene: '' @ gene_symbol)],
            tr @ [Get NCBI_URL (ncbi_params gene_symbol)])"
proof -
  have gi: "drugdisease_get_gene_info w gene_symbol tr =
      (Inr gene_info, tr @ [Get NCBI_URL (ncbi_params gene_symbol)])"
    using assms(2) by (simp add: drugdisease_get_gene_info_def split: sum.splits)
  obtain status where st: "py_get gene_info ''status'' JNull = Inr status"
    using assms(2) status_is_returned [of w gene_symbol tr gene_info] by blast
  with assms(3) have "status \<noteq> JStr ''found''" by simp
  then show ?thesis
    using assms(1) st
    by (simp add: drugdisease_call_tool_def io_bind_def io_lift_def gi io_return_def)
qed

lemma generic_not_found_run:
  assumes "ebind (py_get arguments ''gene_symbol'' (JStr [])) py_upper = Inr gene_symbol"
    and "fst (generic_get_gene_info w gene_symbol tr) = Inr gene_info"
    and "py_get gene_info ''status'' JNull \<noteq> Inr (JStr ''found'')"
  shows "generic_call_tool w ''find_gene_diseases'' arguments tr =
           (Inr [Text (''Could not find gene: '' @ gene_symbol)],
            tr @ [Get NCBI_URL (ncbi_params gene_symbol)])"
proof -
  have gi: "generic_get_gene_info w gene_symbol tr =
      (Inr gene_info, tr @ [Get NCBI_URL (ncbi_params gene_symbol)])"
    using assms(2) by (simp add: generic_get_gene_info_def split: sum.splits)
  obtain status where st: "py_get gene_info ''status'' JNull = Inr status"
    using assms(2) status_is_returned [of w gene_symbol tr gene_info] by blast
  with assms(3) have "status \<noteq> JStr ''found''" by simp
  then show ?thesis
    using assms(1) st
    by (simp add: generic_call_tool_def io_bind_def io_lift_def gi io_return_def)
qed

text \<open>
  C5. Let the symbol be a string and \<open>gene_symbol\<close> its upper case. When the status that
  \<^verbatim>\<open>get_gene_info\<close> returns for it is not \<^verbatim>\<open>found\<close>, \<^verbatim>\<open>find_gene_interactions\<close>
  of the drug-disease server and \<^verbatim>\<open>find_gene_diseases\<close> of the generic server return
  the text \<^verbatim>\<open>Could not find gene: ...\<close>, and the only request they have sent is the
  lookup of the identifier: no request goes to the graph service.
\<close>

theorem not_found_short_circuit:
  assumes "ebind (py_get arguments ''gene_symbol'' (JStr [])) py_upper = Inr gene_symbol"
  shows "(fst (drugdisease_get_gene_info w gene_symbol tr) = Inr gene_info
          \<and> py_get gene_info ''status'' JNull \<noteq> Inr (JStr ''found'')
          \<longrightarrow> drugdisease_call_tool w ''find_gene_interactions'' arguments tr =
                (Inr [Text (''Could not find gene: '' @ gene_symbol)],
                 tr @ [Get NCBI_URL (ncbi_params gene_symbol)])
              \<and> filter is_graph_query
                   (drop (length tr)
                      (snd (drugdisease_call_tool w ''find_gene_interactions'' arguments tr))) = [])
       \<and> (fst (generic_get_gene_info w gene_symbol tr) = Inr gene_info'
          \<and> py_get gene_info' ''status'' JNull \<noteq> Inr (JStr ''found'')
          \<longrightarrow> generic_call_tool w ''find_gene_diseases'' arguments tr =
                (Inr [Text (''Could not find gene: '' @ gene_symbol)],
                 tr @ [Get NCBI_URL (ncbi_params gene_symbol)])
              \<and> filter is_graph_query
                   (drop (length tr)
                      (snd (generic_call_tool w ''find_gene_diseases'' arguments tr))) = [])"
proof (intro conjI impI)
  assume a: "fst (drugdisease_get_gene_info w gene_symbol tr) = Inr gene_info
             \<and> py_get gene_info ''status'' JNull \<noteq> Inr (JStr ''found'')"
  then show r: "drugdisease_call_tool w ''find_gene_interactions'' arguments tr =
      (Inr [Text (''Could not find gene: '' @ gene_symbol)],
       tr @ [Get NCBI_URL (ncbi_params gene_symbol)])"
    using drugdisease_not_found_run [OF assms] by simp
  show "filter is_graph_query
          (drop (length tr)
             (snd (drugdisease_call_tool w ''find_gene_interactions'' arguments tr))) = []"
    by (simp add: r)
next
  assume a: "fst (generic_get_gene_info w gene_symbol tr) = Inr gene_info'
             \<and> py_get gene_info' ''status'' JNull \<noteq> Inr (JStr ''found'')"
  then show r: "generic_call_tool w ''find_gene_diseases'' arguments tr =
      (Inr [Text (''Could not find gene: '' @ gene_symbol)],
       tr @ [Get NCBI_URL (ncbi_params gene_symbol)])"
    using generic_not_found_run [OF assms] by simp
  show "filter is_graph_query
          (drop (length tr)
             (snd (generic_call_tool w ''find_gene_diseases'' arguments tr))) = []"
    by (simp add: r)
qed

lemma upper_zzz: "map upper_char ''zzznotagene'' = ''ZZZNOTAGENE''"
  by code_simp

lemma upper_psen1: "map upper_char ''psen1'' = ''PSEN1''"
  by code_simp

lemma upper_apoe: "map upper_char ''apoe'' = ''APOE''"
  by code_simp

lemma upper_app: "map upper_char ''app'' = ''APP''"
  by code_simp

theorem not_found_short_circuit_witness:
  "drugdisease_call_tool example_services ''find_gene_interactions''
      (JDict [(''gene_symbol'', JStr ''zzznotagene'')]) [] =
     (Inr [Text ''Could not find gene: ZZZNOTAGENE''],
      [Get NCBI_URL (ncbi_params ''ZZZNOTAGENE'')])
   \<and> generic_call_tool example_services ''find_gene_diseases''
      (JDict [(''gene_symbol'', JStr ''zzznotagene'')]) [] =
     (Inr [Text ''Could not find gene: ZZZNOTAGENE''],
      [Get NCBI_URL (ncbi_params ''ZZZNOTAGENE'')])"
proof -
  have a: "ebind (py_get (JDict [(''gene_symbol'', JStr ''zzznotagene'')]) ''gene_symbol'' (JStr []))
             py_upper = Inr ''ZZZNOTAGENE''"
    using upper_zzz by simp
  have b: "fst (drugdisease_get_gene_info example_services ''ZZZNOTAGENE'' []) =
             Inr (JDict [(''gene_symbol'', JStr ''ZZZNOTAGENE''), (''status'', JStr ''not_found'')])"
    by (simp add: drugdisease_get_gene_info_def zzz_not_found)
  have c: "fst (generic_get_gene_info example_services ''ZZZNOTAGENE'' []) =
             Inr (JDict [(''gene_symbol'', JStr ''ZZZNOTAGENE''), (''status'', JStr ''not_found'')])"
    by (simp add: generic_get_gene_info_def zzz_not_found)
  show ?thesis
    using not_found_short_circuit [OF a, of example_services "[]"
        "JDict [(''gene_symbol'', JStr ''ZZZNOTAGENE''), (''status'', JStr ''not_found'')]"
        "JDict [(''gene_symbol'', JStr ''ZZZNOTAGENE''), (''status'', JStr ''not_found'')]"]
      b c
    by simp
qed

lemma extract_associations_error:
  "extract_associations id_key record (JDict [(''error'', m)]) = Inr [JDict [(''error'', m)]]"
  by (simp add: extract_associations_def)

lemma extract_associations_dict:
  "\<exists>items. extract_associations id_key record (JDict document) = Inr items"
  by (cases "map_of document ''error''")
     (auto simp: extract_associations_def split: sum.splits)

lemma drugdisease_found_run:
  assumes "ebind (py_get arguments ''gene_symbol'' (JStr [])) py_upper = Inr gene_symbol"
    and "fst (drugdisease_get_gene_info w gene_symbol tr) = Inr gene_info"
    and "py_get gene_info ''status'' JNull = Inr (JStr ''found'')"
    and "py_getitem gene_info (JStr ''entrez_id'') = Inr entrez_id"
    and "fst (drugdisease_query_translator_kg w entrez_id ''biolink:Disease'' []) = Inr disease_raw"
    and "fst (drugdisease_query_translator_kg w entrez_id ''biolink:ChemicalEntity'' []) = Inr drug_raw"
  shows "drugdisease_call_tool w ''find_gene_interactions'' arguments tr =
     (ebind (drugdisease_extract_associations disease_raw ''Disease'') (\<lambda>diseases.
      ebind (drugdisease_extract_associations drug_raw ''Drug'') (\<lambda>drugs.
        Inr [JsonText (interactions_result gene_symbol entrez_id diseases drugs)])),
      tr @ [Get NCBI_URL (ncbi_params gene_symbol),
            Post TRAPI_URL entrez_id ''biolink:Disease'',
            Post TRAPI_URL entrez_id ''biolink:ChemicalEntity''])"
proof -
  have gi: "drugdisease_get_gene_info w gene_symbol tr =
      (Inr gene_info, tr @ [Get NCBI_URL (ncbi_params gene_symbol)])"
    using assms(2) by (simp add: drugdisease_get_gene_info_def split: sum.splits)
  have q1: "drugdisease_query_translator_kg w entrez_id ''biolink:Disease''
              (tr @ [Get NCBI_URL (ncbi_params gene_symbol)]) =
            (Inr disease_raw, tr @ [Get NCBI_URL (ncbi_params gene_symbol),
                                    Post TRAPI_URL entrez_id ''biolink:Disease''])"
    using assms(5)
      drugdisease_query_translator_kg_run [of w entrez_id "''biolink:Disease''"
        "tr @ [Get NCBI_URL (ncbi_params gene_symbol)]"]
    by simp
  have q2: "drugdisease_query_translator_kg w entrez_id ''biolink:ChemicalEntity''
              (tr @ [Get NCBI_URL (ncbi_params gene_symbol),
                     Post TRAPI_URL entrez_id ''biolink:Disease'']) =
            (Inr drug_raw, tr @ [Get NCBI_URL (ncbi_params gene_symbol),
                                 Post TRAPI_URL entrez_id ''biolink:Disease'',
                                 Post TRAPI_URL entrez_id ''biolink:ChemicalEntity''])"
    using assms(6)
      drugdisease_query_translator_kg_run [of w entrez_id "''biolink:ChemicalEntity''"
        "tr @ [Get NCBI_URL (ncbi_params gene_symbol),
               Post TRAPI_URL entrez_id ''biolink:Disease'']"]
    by simp
  show ?thesis
    using assms(1,3,4)
    by (simp add: drugdisease_call_tool_def io_bind_def io_lift_def io_return_def gi q1 q2
          ebind_def split: sum.splits)
qed


lemma apoe_extracted:
  "drugdisease_extract_associations apoe_document ''Disease'' =
     Inr [JDict [(''id'', JStr ''MONDO:0004975''), (''name'', JStr ''Alzheimer disease''),
                 (''type'', JStr ''Disease''), (''categories'', JList [JStr ''biolink:Disease''])],
          JDict [(''id'', JStr ''DOID:10652''), (''name'', JStr ''Alzheimer disease''),
                 (''type'', JStr ''Disease''), (''categories'', JList [])],
          JDict [(''id'', JStr ''UMLS:C0002395''), (''name'', JStr ''Alzheimer disease''),
                 (''type'', JStr ''Disease''), (''categories'', JList [])],
          JDict [(''id'', JStr ''HP:0002511''), (''name'', JStr ''HP:0002511''),
                 (''type'', JStr ''Disease''), (''categories'', JList [])]]"
  by code_simp

lemma apoe_interactions:
  "drugdisease_call_tool example_services ''find_gene_interactions''
     (JDict [(''gene_symbol'', JStr ''apoe'')]) [] =
   (Inr [JsonText
     (JDict
       [(''gene'', JStr ''APOE''), (''entrez_id'', JStr ''348''),
        (''summary'', JDict [(''disease_count'', JInt 4), (''drug_count'', JInt 1)]),
        (''top_diseases'',
         JList
          [JDict [(''id'', JStr ''MONDO:0004975''), (''name'', JStr ''Alzheimer disease''),
                  (''type'', JStr ''Disease''), (''categories'', JList [JStr ''biolink:Disease''])],
           JDict [(''id'', JStr ''DOID:10652''), (''name'', JStr ''Alzheimer disease''),
                  (''type'', JStr ''Disease''), (''categories'', JList [])],
           JDict [(''id'', JStr ''UMLS:C0002395''), (''name'', JStr ''Alzheimer disease''),
                  (''type'', JStr ''Disease''), (''categories'', JList [])],
           JDict [(''id'', JStr ''HP:0002511''), (''name'', JStr ''HP:0002511''),
                  (''type'', JStr ''Disease''), (''categories'', JList [])]]),
        (''top_drugs'', JList [JDict [(''error'', JStr ''Connection error: timed out'')]])])],
    [Get NCBI_URL (ncbi_params ''APOE''),
     Post TRAPI_URL (JStr ''348'') ''biolink:Disease'',
     Post TRAPI_URL (JStr ''348'') ''biolink:ChemicalEntity''])"
  by code_simp


text \<open>
  C3, as the code has it. Let the gene be found, let the disease query return a JSON object
  and let the drug query fail with \<open>e\<close>. Then \<^verbatim>\<open>find_gene_interactions\<close> raises
  nothing and prints a summary whose \<^verbatim>\<open>top_diseases\<close> are the first 15 records
  extracted from the disease result, whose \<^verbatim>\<open>top_drugs\<close> is the one-element list
  holding the error record of the failed query, and whose \<^verbatim>\<open>drug_count\<close> is 1.
\<close>

theorem drug_failure_contained:
  assumes "ebind (py_get arguments ''gene_symbol'' (JStr [])) py_upper = Inr gene_symbol"
    and "fst (drugdisease_get_gene_info w gene_symbol tr) = Inr gene_info"
    and "py_get gene_info ''status'' JNull = Inr (JStr ''found'')"
    and "py_getitem gene_info (JStr ''entrez_id'') = Inr entrez_id"
    and "fetch w (Post TRAPI_URL entrez_id ''biolink:Disease'') = Inr (JDict document)"
    and "failed w (Post TRAPI_URL entrez_id ''biolink:ChemicalEntity'') e"
  shows "\<exists>diseases.
           drugdisease_extract_associations (JDict document) ''Disease'' = Inr diseases
         \<and> fst (drugdisease_call_tool w ''find_gene_interactions'' arguments tr) =
             Inr [JsonText
               (JDict
                 [(''gene'', JStr gene_symbol),
                  (''entrez_id'', entrez_id),
                  (''summary'', JDict [(''disease_count'', JInt (int (length diseases))),
                                       (''drug_count'', JInt 1)]),
                  (''top_diseases'', JList (take 15 diseases)),
                  (''top_drugs'',
                   JList [JDict [(''error'', JStr (''Connection error: '' @ str_e e))]])])]"
proof -
  obtain diseases where
    e1: "drugdisease_extract_associations (JDict document) ''Disease'' = Inr diseases"
    using extract_associations_dict [of "''id''" "drugdisease_record ''Disease''" document]
    by (auto simp: drugdisease_extract_associations_def)
  have d1: "fst (drugdisease_query_translator_kg w entrez_id ''biolink:Disease'' []) =
              Inr (JDict document)"
    using assms(5) by (simp add: drugdisease_query_translator_kg_def Let_def)
  have "fetch w (Post TRAPI_URL entrez_id ''biolink:ChemicalEntity'') = Inl e"
    using assms(6) by (simp add: fetch_failed)
  then have d2: "fst (drugdisease_query_translator_kg w entrez_id ''biolink:ChemicalEntity'' []) =
              Inr (JDict [(''error'', JStr (''Connection error: '' @ str_e e))])"
    by (simp add: drugdisease_query_translator_kg_def Let_def)
  have e2: "drugdisease_extract_associations (JDict [(''error'', m)]) ''Drug'' =
            Inr [JDict [(''error'', m)]]" for m
    by (simp add: drugdisease_extract_associations_def extract_associations_error)
  have "fst (drugdisease_call_tool w ''find_gene_interactions'' arguments tr) =
      Inr [JsonText (interactions_result gene_symbol entrez_id diseases
             [JDict [(''error'', JStr (''Connection error: '' @ str_e e))]])]"
    using drugdisease_found_run [OF assms(1-4) d1 d2] by (simp add: e1 e2)
  with e1 show ?thesis
    by (simp add: interactions_result_def)
qed

theorem drug_failure_contained_witness:
  "failed example_services (Post TRAPI_URL (JStr ''348'') ''biolink:ChemicalEntity'')
     (TransportError ''timed out'')
   \<and> fetch example_services (Post TRAPI_URL (JStr ''348'') ''biolink:Disease'') = Inr apoe_document
   \<and> (\<exists>diseases.
        drugdisease_extract_associations apoe_document ''Disease'' = Inr diseases
      \<and> fst (drugdisease_call_tool example_services ''find_gene_interactions''
               (JDict [(''gene_symbol'', JStr ''apoe'')]) []) =
             Inr [JsonText
               (JDict
                 [(''gene'', JStr ''APOE''),
                  (''entrez_id'', JStr ''348''),
                  (''summary'', JDict [(''disease_count'', JInt (int (length diseases))),
                                       (''drug_count'', JInt 1)]),
                  (''top_diseases'', JList (take 15 diseases)),
                  (''top_drugs'',
                   JList [JDict [(''error'', JStr ''Connection error: timed out'')]])])])"
proof -
  have a1: "ebind (py_get (JDict [(''gene_symbol'', JStr ''apoe'')]) ''gene_symbol'' (JStr []))
              py_upper = Inr ''APOE''"
    using upper_apoe by simp
  have a2: "fst (drugdisease_get_gene_info example_services ''APOE'' []) =
      Inr (JDict [(''gene_symbol'', JStr ''APOE''), (''entrez_id'', JStr ''348''),
                  (''status'', JStr ''found'')])"
    by (simp add: drugdisease_get_gene_info_def apoe_found)
  have a3: "py_get (JDict [(''gene_symbol'', JStr ''APOE''), (''entrez_id'', JStr ''348''),
                  (''status'', JStr ''found'')]) ''status'' JNull = Inr (JStr ''found'')"
    by simp
  have a4: "py_getitem (JDict [(''gene_symbol'', JStr ''APOE''), (''entrez_id'', JStr ''348''),
                  (''status'', JStr ''found'')]) (JStr ''entrez_id'') = Inr (JStr ''348'')"
    by simp
  have a5: "fetch example_services (Post TRAPI_URL (JStr ''348'') ''biolink:Disease'') =
      Inr (JDict [(''message'', JDict [(''results'',
             JList [binding_row [''MONDO:0004975''], binding_row [''DOID:10652''],
                    binding_row [''UMLS:C0002395'', ''HP:0002511''],
                    binding_row [''MONDO:0004975'']]),
           (''knowledge_graph'', JDict [(''nodes'', JDict
             [(''MONDO:0004975'', JDict [(''name'', JStr ''Alzheimer disease''),
                                         (''categories'', JList [JStr ''biolink:Disease''])]),
              (''DOID:10652'', JDict [(''name'', JStr ''Alzheimer disease'')]),
              (''UMLS:C0002395'', JDict [(''name'', JStr ''Alzheimer disease'')]),
              (''HP:0002511'', JDict [])])])])])"
    by (simp add: fetch_def example_services_def ok_response_def apoe_document_def
          graph_document_def)
  have a6: "failed example_services (Post TRAPI_URL (JStr ''348'') ''biolink:ChemicalEntity'')
              (TransportError ''timed out'')"
    by (simp add: failed_def example_services_def)
  have doc: "apoe_document = JDict [(''message'', JDict [(''results'',
             JList [binding_row [''MONDO:0004975''], binding_row [''DOID:10652''],
                    binding_row [''UMLS:C0002395'', ''HP:0002511''],
                    binding_row [''MONDO:0004975'']]),
           (''knowledge_graph'', JDict [(''nodes'', JDict
             [(''MONDO:0004975'', JDict [(''name'', JStr ''Alzheimer disease''),
                                         (''categories'', JList [JStr ''biolink:Disease''])]),
              (''DOID:10652'', JDict [(''name'', JStr ''Alzheimer disease'')]),
              (''UMLS:C0002395'', JDict [(''name'', JStr ''Alzheimer disease'')]),
              (''HP:0002511'', JDict [])])])])]"
    by (simp add: apoe_document_def graph_document_def)
  show ?thesis
    using drug_failure_contained [OF a1 a2 a3 a4 a5 a6] a5 a6
    by (simp add: doc)
qed

text \<open>
  C3, as the claim has it, fails: with the drug query timing out, \<^verbatim>\<open>top_drugs\<close> of
  the summary for APOE is not the empty list but holds the error record.
\<close>

theorem drug_failure_counterexample:
  "reply_field (drugdisease_call_tool example_services ''find_gene_interactions''
                  (JDict [(''gene_symbol'', JStr ''apoe'')]) []) ''top_drugs'' =
     Some (JList [JDict [(''error'', JStr ''Connection error: timed out'')]])
   \<and> reply_field (drugdisease_call_tool example_services ''find_gene_interactions''
                  (JDict [(''gene_symbol'', JStr ''apoe'')]) []) ''top_drugs'' \<noteq> Some (JList [])"
  by (simp add: apoe_interactions reply_field_def)

subsection \<open>The ranking of the tally\<close>







text \<open>
  The tally lists its names in the order of their first insertion: an update leaves the
  names and their places as they are, a new name goes to the end.
\<close>

lemma counts_set_names:
  assumes "counts_set cs k v = Inr cs'"
  shows "map fst cs' =
           (if list_ex (\<lambda>kv. py_eq (fst kv) k) cs then map fst cs else map fst cs @ [k])"
proof -
  have "map fst (map (\<lambda>kv. if py_eq (fst kv) k then (fst kv, v) else kv) cs) = map fst cs"
    by (induction cs) auto
  with assms show ?thesis
    by (auto simp: counts_set_def split: if_splits)
qed

lemma count_diseases_names:
  "count_diseases diseases cs = Inr cs' \<Longrightarrow> \<exists>new. map fst cs' = map fst cs @ new"
proof (induction diseases arbitrary: cs)
  case Nil
  then show ?case by simp
next
  case (Cons disease diseases)
  from Cons.prems obtain disease_name k cs1 where
    set: "counts_set cs disease_name (k + 1) = Inr cs1" and
    rest: "count_diseases diseases cs1 = Inr cs'"
    by (auto simp: ebind_eq_Inr)
  from counts_set_names [OF set] obtain new1 where "map fst cs1 = map fst cs @ new1"
    by (cases "list_ex (\<lambda>kv. py_eq (fst kv) disease_name) cs") auto
  moreover from Cons.IH [OF rest] obtain new2 where "map fst cs' = map fst cs1 @ new2"
    by blast
  ultimately show ?case
    by simp
qed

subsection \<open>The tally\<close>

lemma counts_get_tally: "hashable k \<Longrightarrow> counts_get disease_counts k 0 = Inr (tally disease_counts k)"
  by (simp add: counts_get_def tally_def)













subsection \<open>The generic server's extractor and the limit\<close>

text \<open>
  C2 in the generic server. Two rows of the document for APOE bind the identifier
  MONDO:0004975. \<^verbatim>\<open>extract_disease_associations\<close> of
  \<^verbatim>\<open>mcp_generic-checkpoint.py\<close> appends a record for each of them: the list has
  two records for that identifier, where the sibling function of the disease-entity server
  returns one.
\<close>

theorem generic_extractor_keeps_duplicates:
  "generic_extract_disease_associations apoe_document =
     Inr [JDict [(''disease_id'', JStr ''MONDO:0004975''),
                 (''disease_name'', JStr ''Alzheimer disease''),
                 (''categories'', JList [JStr ''biolink:Disease''])],
          JDict [(''disease_id'', JStr ''DOID:10652''),
                 (''disease_name'', JStr ''Alzheimer disease''),
                 (''categories'', JList [])],
          JDict [(''disease_id'', JStr ''UMLS:C0002395''),
                 (''disease_name'', JStr ''Alzheimer disease''),
                 (''categories'', JList [])],
          JDict [(''disease_id'', JStr ''HP:0002511''),
                 (''disease_name'', JStr ''HP:0002511''),
                 (''categories'', JList [])],
          JDict [(''disease_id'', JStr ''MONDO:0004975''),
                 (''disease_name'', JStr ''Alzheimer disease''),
                 (''categories'', JList [JStr ''biolink:Disease''])]]
   \<and> diseaseEntity_extract_disease_associations apoe_document =
     Inr [JDict [(''disease_id'', JStr ''MONDO:0004975''),
                 (''disease_name'', JStr ''Alzheimer disease''),
                 (''categories'', JList [JStr ''biolink:Disease''])],
          JDict [(''disease_id'', JStr ''DOID:10652''),
                 (''disease_name'', JStr ''Alzheimer disease''),
                 (''categories'', JList [])],
          JDict [(''disease_id'', JStr ''UMLS:C0002395''),
                 (''disease_name'', JStr ''Alzheimer disease''),
                 (''categories'', JList [])],
          JDict [(''disease_id'', JStr ''HP:0002511''),
                 (''disease_name'', JStr ''HP:0002511''),
                 (''categories'', JList [])]]"
  by code_simp

text \<open>
  C4 at a negative limit. With three symbols and \<^verbatim>\<open>limit = -1\<close> the slice
  \<^verbatim>\<open>gene_symbols[:limit]\<close> keeps the first two symbols, and both servers look two
  identifiers up: more than the limit, and more than none.
\<close>

theorem negative_limit_lookups:
  "length (filter is_lookup (snd (generic_call_tool example_services ''analyze_gene_list''
      (JDict [(''gene_symbols'', JList [JStr ''apoe'', JStr ''app'', JStr ''zzznotagene'']),
              (''limit'', JInt (- 1))]) []))) = 2
   \<and> length (filter is_lookup (snd (diseaseEntity_call_tool example_services ''analyze_gene_list''
      (JDict [(''gene_symbols'', JList [JStr ''apoe'', JStr ''app'', JStr ''zzznotagene'']),
              (''limit'', JInt (- 1))]) []))) = 2
   \<and> reply_field (generic_call_tool example_services ''analyze_gene_list''
      (JDict [(''gene_symbols'', JList [JStr ''apoe'', JStr ''app'', JStr ''zzznotagene'']),
              (''limit'', JInt (- 1))]) []) ''genes_analyzed'' =
       Some (JList [JStr ''APOE'', JStr ''APP''])"
  by code_simp

subsection \<open>What the deduplicating extractor returns\<close>

lemma set_first_occurrences [simp]: "set (first_occurrences xs) = set xs"
  by (induction xs) auto

lemma distinct_first_occurrences [simp]: "distinct (first_occurrences xs)"
  by (induction xs) auto

lemma first_occurrences_append:
  "first_occurrences (xs @ ys) =
     first_occurrences xs @ filter (\<lambda>y. y \<notin> set xs) (first_occurrences ys)"
proof (induction xs)
  case Nil
  then show ?case by simp
next
  case (Cons x xs)
  have "filter (\<lambda>y. y \<noteq> x) (filter (\<lambda>y. y \<notin> set xs) (first_occurrences ys)) =
        filter (\<lambda>y. y \<notin> set (x # xs)) (first_occurrences ys)"
    by (auto intro: filter_cong)
  with Cons show ?case by simp
qed

lemma merge_ids_Nil [simp]: "merge_ids ks [] = ks"
  by (simp add: merge_ids_def)

lemma merge_ids_empty [simp]: "merge_ids [] new = first_occurrences new"
  by (simp add: merge_ids_def)

lemma set_merge_ids [simp]: "set (merge_ids ks new) = set ks \<union> set new"
  by (auto simp: merge_ids_def)

lemma merge_ids_merge: "merge_ids (merge_ids ks xs) ys = merge_ids ks (xs @ ys)"
proof -
  have "filter (\<lambda>k. k \<notin> set ks \<and> (k \<in> set xs \<longrightarrow> k \<in> set ks)) (first_occurrences ys) =
        filter (\<lambda>x. x \<notin> set xs \<and> x \<notin> set ks) (first_occurrences ys)"
    by (rule filter_cong) auto
  then show ?thesis
    by (simp add: merge_ids_def first_occurrences_append)
qed

lemma merge_ids_seen: "k \<in> set ks \<Longrightarrow> merge_ids ks [k] = ks"
  by (simp add: merge_ids_def)

lemma merge_ids_new: "k \<notin> set ks \<Longrightarrow> merge_ids ks [k] = ks @ [k]"
  by (simp add: merge_ids_def)

lemma node_ids_Cons:
  "node_ids nodes (node # target_nodes) = node_ids nodes [node] @ node_ids nodes target_nodes"
  by (simp add: node_ids_def)

lemma node_ids_append:
  "node_ids nodes (xs @ ys) = node_ids nodes xs @ node_ids nodes ys"
  by (simp add: node_ids_def)

lemma node_ids_Nil [simp]: "node_ids nodes [] = []"
  by (simp add: node_ids_def)



lemma dict_entries_append [simp]:
  "dict_entries nodes (xs @ ys) = (dict_entries nodes xs \<and> dict_entries nodes ys)"
  by (auto simp: dict_entries_def)

lemma dict_entries_Nil [simp]: "dict_entries nodes []"
  by (simp add: dict_entries_def)

lemma dict_entries_merge [simp]:
  "dict_entries nodes (merge_ids ks new) = (dict_entries nodes ks \<and> dict_entries nodes new)"
  by (auto simp: dict_entries_def)

lemma any_field_eq_entries:
  assumes "keeps_id id_key record" and "dict_entries nodes ks"
  shows "any_field_eq id_key (JStr k) (map (entry_record record nodes) ks) = Inr (k \<in> set ks)"
  using assms(2)
proof (induction ks)
  case Nil
  then show ?case by simp
next
  case (Cons a ks)
  then obtain node_info where "map_of nodes a = Some (JDict node_info)"
    by (auto simp: dict_entries_def)
  then have "py_getitem (entry_record record nodes a) (JStr id_key) = Inr (JStr a)"
    using assms(1) by (simp add: entry_record_def keeps_id_def)
  moreover have "dict_entries nodes ks"
    using Cons.prems by (simp add: dict_entries_def)
  ultimately show ?case
    using Cons.IH by auto
qed

text \<open>One node of the loop \<^verbatim>\<open>for node in target_nodes\<close>, over a catalogue that is a dictionary.\<close>

lemma nodes_loop_step:
  assumes "keeps_id id_key record" and "dict_entries nodes ks"
    and "nodes_loop id_key record (JDict nodes) (node # target_nodes)
           (map (entry_record record nodes) ks) = Inr out"
  shows "dict_entries nodes (node_ids nodes [node])
         \<and> nodes_loop id_key record (JDict nodes) target_nodes
             (map (entry_record record nodes) (merge_ids ks (node_ids nodes [node]))) = Inr out"
proof -
  from assms(3) obtain node_id present where
    id: "py_get node ''id'' JNull = Inr node_id" and
    pin: "py_in node_id (JDict nodes) = Inr present"
    by (auto simp: ebind_eq_Inr)
  show ?thesis
  proof (cases present)
    case False
    with pin have "node_ids nodes [node] = []"
      using id by (cases node_id) (auto simp: node_ids_def split: if_splits)
    with assms(3) id pin False show ?thesis
      by simp
  next
    case True
    with pin obtain k node_info where
      k: "node_id = JStr k" and info: "map_of nodes k = Some node_info"
      by (cases node_id) (auto split: if_splits)
    from assms(3) id pin True k info obtain node_name where
      nm: "py_get node_info ''name'' (JStr k) = Inr node_name"
      by (auto simp: ebind_eq_Inr)
    then obtain kvs where d: "node_info = JDict kvs"
      by (cases node_info) auto
    have ids: "node_ids nodes [node] = [k]"
      using id k info by (simp add: node_ids_def)
    have ent: "dict_entries nodes [k]"
      using info d by (simp add: dict_entries_def)
    have seen: "any_field_eq id_key (JStr k) (map (entry_record record nodes) ks) =
                  Inr (k \<in> set ks)"
      by (rule any_field_eq_entries [OF assms(1,2)])
    show ?thesis
    proof (cases "k \<in> set ks")
      case True
      with assms(3) id pin \<open>present\<close> k info d seen show ?thesis
        by (simp add: ids ent merge_ids_seen)
    next
      case False
      have "entry_record record nodes k =
              record (JStr k)
                (case map_of kvs ''name'' of None \<Rightarrow> JStr k | Some name \<Rightarrow> name)
                (case map_of kvs ''categories'' of None \<Rightarrow> JList [] | Some cs \<Rightarrow> cs)"
        using info d by (simp add: entry_record_def)
      with assms(3) id pin \<open>present\<close> k info d seen False show ?thesis
        by (simp add: ids ent merge_ids_new)
    qed
  qed
qed

lemma nodes_loop_dict:
  assumes "keeps_id id_key record"
  shows "dict_entries nodes ks \<Longrightarrow>
         nodes_loop id_key record (JDict nodes) target_nodes
           (map (entry_record record nodes) ks) = Inr out \<Longrightarrow>
         dict_entries nodes (node_ids nodes target_nodes)
         \<and> out = map (entry_record record nodes) (merge_ids ks (node_ids nodes target_nodes))"
proof (induction target_nodes arbitrary: ks)
  case Nil
  then show ?case by simp
next
  case (Cons node target_nodes)
  from nodes_loop_step [OF assms Cons.prems] have
    e: "dict_entries nodes (node_ids nodes [node])" and
    run: "nodes_loop id_key record (JDict nodes) target_nodes
            (map (entry_record record nodes) (merge_ids ks (node_ids nodes [node]))) = Inr out"
    by auto
  have "dict_entries nodes (merge_ids ks (node_ids nodes [node]))"
    using Cons.prems(1) e by simp
  from Cons.IH [OF this run] e show ?case
    by (simp add: merge_ids_merge node_ids_Cons [of nodes node target_nodes])
qed

lemma bound_ids_Cons:
  "bound_ids nodes (result # rows) = node_ids nodes (row_nodes result) @ bound_ids nodes rows"
  by (simp add: bound_ids_def node_ids_append)

lemma results_loop_dict:
  assumes "keeps_id id_key record"
  shows "dict_entries nodes ks \<Longrightarrow>
         results_loop id_key record (JDict nodes) rows
           (map (entry_record record nodes) ks) = Inr out \<Longrightarrow>
         dict_entries nodes (bound_ids nodes rows)
         \<and> out = map (entry_record record nodes) (merge_ids ks (bound_ids nodes rows))"
proof (induction rows arbitrary: ks)
  case Nil
  then show ?case by (simp add: bound_ids_def)
next
  case (Cons result rows)
  from Cons.prems(2) obtain target_nodes items' where
    tn: "ebind (py_get result ''node_bindings'' (JDict [])) (\<lambda>node_bindings.
           ebind (py_get node_bindings ''n1'' (JList [])) py_iter) = Inr target_nodes" and
    nl: "nodes_loop id_key record (JDict nodes) target_nodes
           (map (entry_record record nodes) ks) = Inr items'" and
    rest: "results_loop id_key record (JDict nodes) rows items' = Inr out"
    by (auto simp: ebind_eq_Inr)
  have rn: "row_nodes result = target_nodes"
    using tn by (simp add: row_nodes_def)
  from nodes_loop_dict [OF assms Cons.prems(1) nl] have
    e: "dict_entries nodes (node_ids nodes target_nodes)" and
    items': "items' = map (entry_record record nodes) (merge_ids ks (node_ids nodes target_nodes))"
    by auto
  have "dict_entries nodes (merge_ids ks (node_ids nodes target_nodes))"
    using Cons.prems(1) e by simp
  from Cons.IH [OF this rest [unfolded items']] e show ?case
    by (simp add: merge_ids_merge bound_ids_Cons rn)
qed


lemma extract_try_ids:
  assumes "keeps_id id_key record"
    and "extract_try id_key record kg_result = Inr out"
    and "py_get kg_result ''message'' (JDict []) = Inr message"
    and "py_get message ''results'' (JList []) = Inr results"
    and "py_iter results = Inr rows"
    and "py_get message ''knowledge_graph'' (JDict []) = Inr knowledge_graph"
    and "py_get knowledge_graph ''nodes'' (JDict []) = Inr (JDict nodes)"
  shows "map (\<lambda>item. py_getitem item (JStr id_key)) out =
           map (\<lambda>k. Inr (JStr k)) (first_occurrences (bound_ids nodes rows))"
proof -
  have "results_loop id_key record (JDict nodes) rows (map (entry_record record nodes) []) = Inr out"
    using assms(2-7) by (simp add: extract_try_def)
  from results_loop_dict [OF assms(1) _ this] have
    e: "dict_entries nodes (bound_ids nodes rows)" and
    out: "out = map (entry_record record nodes) (first_occurrences (bound_ids nodes rows))"
    by simp_all
  have "py_getitem (entry_record record nodes k) (JStr id_key) = Inr (JStr k)"
    if "k \<in> set (bound_ids nodes rows)" for k
  proof -
    from e that obtain node_info where "map_of nodes k = Some (JDict node_info)"
      by (auto simp: dict_entries_def)
    then show ?thesis
      using assms(1) by (simp add: entry_record_def keeps_id_def)
  qed
  then show ?thesis
    by (simp add: out)
qed


lemma extract_associations_try:
  assumes "py_in (JStr ''error'') kg_result = Inr False"
    and "extract_try id_key record kg_result = Inr items"
  shows "extract_associations id_key record kg_result = Inr items"
  using assms by (simp add: extract_associations_def)

lemma filter_eq_absent: "x \<notin> set xs \<Longrightarrow> filter (\<lambda>y. y = x) xs = []"
  by (induction xs) auto

lemma length_filter_distinct:
  "distinct xs \<Longrightarrow> x \<in> set xs \<Longrightarrow> length (filter (\<lambda>y. y = x) xs) = 1"
  by (induction xs) (auto simp: filter_eq_absent)

text \<open>
  The deduplication of the drug-disease and the disease-entity extractor. On a document
  without the key \<^verbatim>\<open>error\<close> whose node catalogue is a dictionary, when no entry makes
  the \<^verbatim>\<open>try\<close> raise, the identifiers of the returned records are the identifiers the
  rows bind, each once, in the order of first occurrence; so every bound identifier has
  exactly one record.
\<close>

lemma extractor_one_record_per_id:
  assumes "keeps_id id_key record"
    and "py_in (JStr ''error'') kg_result = Inr False"
    and "extract_try id_key record kg_result = Inr items"
    and "py_get kg_result ''message'' (JDict []) = Inr message"
    and "py_get message ''results'' (JList []) = Inr results"
    and "py_iter results = Inr rows"
    and "py_get message ''knowledge_graph'' (JDict []) = Inr knowledge_graph"
    and "py_get knowledge_graph ''nodes'' (JDict []) = Inr (JDict nodes)"
  shows "extract_associations id_key record kg_result = Inr items"
    and "map (\<lambda>item. py_getitem item (JStr id_key)) items =
           map (\<lambda>k. Inr (JStr k)) (first_occurrences (bound_ids nodes rows))"
    and "k \<in> set (bound_ids nodes rows) \<Longrightarrow>
           length (filter (\<lambda>item. py_getitem item (JStr id_key) = Inr (JStr k)) items) = 1"
proof -
  show "extract_associations id_key record kg_result = Inr items"
    by (rule extract_associations_try [OF assms(2,3)])
  show ids: "map (\<lambda>item. py_getitem item (JStr id_key)) items =
           map (\<lambda>k. Inr (JStr k)) (first_occurrences (bound_ids nodes rows))"
    by (rule extract_try_ids [OF assms(1,3-8)])
  assume k: "k \<in> set (bound_ids nodes rows)"
  have "length (filter (\<lambda>item. py_getitem item (JStr id_key) = Inr (JStr k)) items) =
        length (filter (\<lambda>v. v = Inr (JStr k)) (map (\<lambda>item. py_getitem item (JStr id_key)) items))"
    by (simp add: filter_map comp_def)
  also have "\<dots> = length (filter (\<lambda>k'. k' = k) (first_occurrences (bound_ids nodes rows)))"
    by (simp add: ids filter_map comp_def)
  also have "\<dots> = 1"
    using k by (simp add: length_filter_distinct)
  finally show "length (filter (\<lambda>item. py_getitem item (JStr id_key) = Inr (JStr k)) items) = 1" .
qed





subsection \<open>The limit, when it is not negative\<close>

lemma upper_all_length: "upper_all gs = Inr us \<Longrightarrow> length us = length gs"
  by (induction gs arbitrary: us) (auto simp: ebind_eq_Inr)

lemma py_slice_to_length:
  "0 \<le> n \<Longrightarrow> py_slice_to gene_symbols (JInt n) = Inr selected \<Longrightarrow> length selected \<le> nat n"
  by (cases gene_symbols) (auto simp: slice_to_def)

lemma py_slice_to_list:
  "0 \<le> n \<Longrightarrow> py_slice_to (JList gs) (JInt n) = Inr (take (nat n) gs)"
  by (simp add: slice_to_def)

lemma sends_one_lookup_servers:
  "sends_one_lookup (generic_get_gene_info w)"
  "sends_one_lookup (diseaseEntity_get_gene_info w)"
  by (simp_all add: sends_one_lookup_def generic_get_gene_info_def diseaseEntity_get_gene_info_def)

lemma sends_one_query_servers:
  "sends_one_query (generic_query_translator_kg w)"
  "sends_one_query (diseaseEntity_query_translator_kg w)"
  by (simp_all add: sends_one_query_def generic_query_translator_kg_def
        diseaseEntity_query_translator_kg_def Let_def)

lemma gene_loop_lookups:
  assumes "sends_one_lookup get_gene_info" and "sends_one_query query_translator_kg"
  shows "length (filter is_lookup
           (snd (gene_loop get_gene_info query_translator_kg extract_disease_associations
                   gene_symbols st tr)))
         \<le> length (filter is_lookup tr) + length gene_symbols"
proof (induction gene_symbols arbitrary: st tr)
  case Nil
  then show ?case by (simp add: io_return_def)
next
  case (Cons gene_symbol gene_symbols)
  let ?tr1 = "tr @ [Get NCBI_URL (ncbi_params gene_symbol)]"
  obtain r where gi: "get_gene_info gene_symbol tr = (r, ?tr1)"
    using assms(1) by (metis sends_one_lookup_def prod.collapse)
  have one: "length (filter is_lookup ?tr1) = length (filter is_lookup tr) + 1"
    by simp
  have post: "length (filter is_lookup (snd (query_translator_kg i ?tr1))) =
                length (filter is_lookup tr) + 1" for i
  proof -
    obtain url category where "snd (query_translator_kg i ?tr1) = ?tr1 @ [Post url i category]"
      using assms(2) unfolding sends_one_query_def by blast
    then show ?thesis by simp
  qed
  show ?case
  proof (cases r)
    case (Inl e)
    with gi one show ?thesis
      by (simp add: io_bind_def)
  next
    case (Inr gene_info)
    show ?thesis
    proof (cases "py_get gene_info ''status'' JNull")
      case (Inl e)
      with gi Inr one show ?thesis
        by (simp add: io_bind_def io_lift_def)
    next
      case status: (Inr status)
      show ?thesis
      proof (cases "status = JStr ''found''")
        case False
        with gi Inr status Cons.IH [of st ?tr1] show ?thesis
          by (simp add: io_bind_def io_lift_def)
      next
        case True
        show ?thesis
        proof (cases "py_getitem gene_info (JStr ''entrez_id'')")
          case (Inl e)
          with gi Inr status True one show ?thesis
            by (simp add: io_bind_def io_lift_def)
        next
          case id: (Inr entrez_id)
          obtain kg tr2 where q: "query_translator_kg entrez_id ?tr1 = (kg, tr2)"
            by (cases "query_translator_kg entrez_id ?tr1") auto
          with post [of entrez_id] have tr2: "length (filter is_lookup tr2) =
              length (filter is_lookup tr) + 1"
            by simp
          show ?thesis
          proof (cases kg)
            case (Inl e)
            with gi Inr status True id q tr2 show ?thesis
              by (simp add: io_bind_def io_lift_def)
          next
            case kgr: (Inr kg_result)
            show ?thesis
            proof (cases "extract_disease_associations kg_result")
              case (Inl e)
              with gi Inr status True id q kgr tr2 show ?thesis
                by (simp add: io_bind_def io_lift_def)
            next
              case ex: (Inr diseases)
              show ?thesis
              proof (cases "count_diseases diseases (snd st)")
                case (Inl e)
                with gi Inr status True id q kgr ex tr2 show ?thesis
                  by (simp add: io_bind_def io_lift_def)
              next
                case cd: (Inr disease_counts)
                from Cons.IH [of _ tr2] tr2
                show ?thesis
                  using gi Inr status True id q kgr ex cd
                  by (simp add: io_bind_def io_lift_def)
              qed
            qed
          qed
        qed
      qed
    qed
  qed
qed

text \<open>
  For a limit that is not negative, C4 holds in both checkpoint servers: after
  \<^verbatim>\<open>analyze_gene_list\<close> the trace holds at most \<open>limit\<close> lookups more than before, and
  a list of symbols is cut to its first \<open>limit\<close> entries before any request is sent.
\<close>

lemma analyze_gene_list_lookups:
  assumes "sends_one_lookup get_gene_info" and "sends_one_query query_translator_kg"
    and "py_get arguments ''limit'' (JInt 5) = Inr (JInt n)" and "0 \<le> n"
  shows "length (filter is_lookup
           (snd (analyze_gene_list get_gene_info query_translator_kg
                   extract_disease_associations summary arguments tr)))
         \<le> length (filter is_lookup tr) + nat n"
proof (cases "py_get arguments ''gene_symbols'' (JList [])")
  case (Inl e)
  then show ?thesis
    by (simp add: analyze_gene_list_def)
next
  case gs: (Inr gene_symbols)
  show ?thesis
  proof (cases "py_slice_to gene_symbols (JInt n)")
    case (Inl e)
    with gs assms(3) show ?thesis
      by (simp add: analyze_gene_list_def)
  next
    case sel: (Inr selected)
    show ?thesis
    proof (cases "upper_all selected")
      case (Inl e)
      with gs sel assms(3) show ?thesis
        by (simp add: analyze_gene_list_def)
    next
      case up: (Inr symbols)
      have len: "length symbols \<le> nat n"
        using upper_all_length [OF up] py_slice_to_length [OF assms(4) sel] by simp
      obtain r tr' where run: "gene_loop get_gene_info query_translator_kg
          extract_disease_associations symbols ([], []) tr = (r, tr')"
        by (cases "gene_loop get_gene_info query_translator_kg
          extract_disease_associations symbols ([], []) tr") auto
      have "length (filter is_lookup tr') \<le> length (filter is_lookup tr) + length symbols"
        using gene_loop_lookups [OF assms(1,2), of extract_disease_associations symbols
            "([], [])" tr] run by simp
      with len have bound: "length (filter is_lookup tr') \<le> length (filter is_lookup tr) + nat n"
        by simp
      have "snd (analyze_gene_list get_gene_info query_translator_kg
                   extract_disease_associations summary arguments tr) = tr'"
        using gs sel up assms(3) run
        by (cases r) (simp_all add: analyze_gene_list_def io_bind_def io_lift_def io_return_def)
      with bound show ?thesis
        by simp
    qed
  qed
qed

lemma limit_bounds_lookups:
  assumes "py_get arguments ''limit'' (JInt 5) = Inr (JInt n)" and "0 \<le> n"
  shows "length (filter is_lookup
           (snd (generic_call_tool w ''analyze_gene_list'' arguments tr)))
         \<le> length (filter is_lookup tr) + nat n"
    and "length (filter is_lookup
           (snd (diseaseEntity_call_tool w ''analyze_gene_list'' arguments tr)))
         \<le> length (filter is_lookup tr) + nat n"
  using analyze_gene_list_lookups [OF sends_one_lookup_servers(1) sends_one_query_servers(1) assms]
    analyze_gene_list_lookups [OF sends_one_lookup_servers(2) sends_one_query_servers(2) assms]
  by (simp_all add: generic_call_tool_def diseaseEntity_call_tool_def)

end
